theory Spec2Isabelle
  imports Main
begin

section \<open>JavaScript values\<close>

text \<open>
  A JavaScript string is a sequence of UTF-16 code units; a code unit is kept as a
  natural number. \<open>str\<close> turns an ASCII literal into its code units.
\<close>

type_synonym jsstring = "nat list"

definition str :: "string \<Rightarrow> jsstring" where
  "str s = map of_char s"

text \<open>
  The values that reach the client from outside (response bodies, rejection values) and
  the values handed to \<open>alert\<close>. Numbers are restricted to integers. An object is its list
  of properties; for a repeated key the first entry is the one that counts.
\<close>

datatype json =
    JUndefined
  | JNull
  | JBool bool
  | JNum int
  | JStr jsstring
  | JArr "json list"
  | JObj "(jsstring \<times> json) list"

text \<open>JavaScript truthiness, as \<open>!v\<close> and \<open>a || b\<close> test it.\<close>

fun truthy :: "json \<Rightarrow> bool" where
  "truthy JUndefined = False"
| "truthy JNull = False"
| "truthy (JBool b) = b"
| "truthy (JNum n) = (n \<noteq> 0)"
| "truthy (JStr s) = (s \<noteq> [])"
| "truthy (JArr xs) = True"
| "truthy (JObj kvs) = True"

text \<open>
  Optional chaining \<open>v?.k\<close>. The keys the program looks up (\<open>booking\<close>, \<open>id\<close>, \<open>response\<close>,
  \<open>data\<close>, \<open>detail\<close>, \<open>message\<close>) are no properties of strings, numbers, booleans or arrays,
  so the lookup gives \<open>undefined\<close> on everything but an object that has the key.
\<close>

fun opt_get :: "json \<Rightarrow> jsstring \<Rightarrow> json" where
  "opt_get (JObj kvs) k = (case map_of kvs k of Some v \<Rightarrow> v | None \<Rightarrow> JUndefined)"
| "opt_get v k = JUndefined"

definition js_or :: "json \<Rightarrow> json \<Rightarrow> json" where
  "js_or a b = (if truthy a then a else b)"

text \<open>\<open>new Error(msg)\<close>: an object whose only property the program reads is \<open>message\<close>.\<close>

definition Error :: "jsstring \<Rightarrow> json" where
  "Error msg = JObj [(str ''message'', JStr msg)]"

text \<open>\<open>err?.response?.data?.detail\<close>\<close>

definition detail_of :: "json \<Rightarrow> json" where
  "detail_of err = opt_get (opt_get (opt_get err (str ''response'')) (str ''data'')) (str ''detail'')"

text \<open>
  \<open>String.prototype.trim\<close> strips WhiteSpace and LineTerminator code units from both ends.
\<close>

definition is_js_whitespace :: "nat \<Rightarrow> bool" where
  "is_js_whitespace c \<longleftrightarrow>
     c = 0x09 \<or> c = 0x0A \<or> c = 0x0B \<or> c = 0x0C \<or> c = 0x0D \<or> c = 0x20 \<or> c = 0xA0
     \<or> c = 0x1680 \<or> (0x2000 \<le> c \<and> c \<le> 0x200A) \<or> c = 0x2028 \<or> c = 0x2029
     \<or> c = 0x202F \<or> c = 0x205F \<or> c = 0x3000 \<or> c = 0xFEFF"

definition trim :: "jsstring \<Rightarrow> jsstring" where
  "trim s = rev (dropWhile is_js_whitespace (rev (dropWhile is_js_whitespace s)))"

text \<open>
  \<open>(amount / 100).toFixed(2)\<close> for an integer amount of minor units. The quotient is the
  double nearest to amount/100, and \<open>toFixed(2)\<close> picks the integer \<open>n\<close> with \<open>n/100\<close> nearest
  to it; below 2^52 in magnitude that integer is the amount itself, so the text is the
  amount's decimal digits with a point before the last two, after a minus sign for a
  negative amount. Beyond that range the rounding of the double arithmetic can show in
  the text; it is not computed here, and the result is \<open>None\<close>.
\<close>

function decimal :: "nat \<Rightarrow> jsstring" where
  "decimal n = (if n < 10 then [48 + n] else decimal (n div 10) @ [48 + n mod 10])"
  by pat_completeness auto
termination
  by (relation "measure id") auto

declare decimal.simps [simp del]

definition toFixed2_cents :: "int \<Rightarrow> jsstring option" where
  "toFixed2_cents a =
     (if \<bar>a\<bar> < 2 ^ 52
      then Some (let m = nat \<bar>a\<bar> in
                   (if a < 0 then str ''-'' else [])
                   @ decimal (m div 100) @ str ''.'' @ [48 + (m mod 100) div 10, 48 + m mod 10])
      else None)"

section \<open>Data exchanged with the backend and the checkout widget\<close>

text \<open>
  The HTTP requests the client issues. \<open>PostCreateOrder v\<close> is
  \<open>POST /booking/${v}/create-order\<close> with the value that the template interpolates.
\<close>

datatype request =
    GetPing
  | PostChat jsstring jsstring
  | PostRequest jsstring jsstring jsstring
  | PostBooking jsstring jsstring jsstring jsstring jsstring
  | PostCreateOrder json
  | PostVerify jsstring jsstring jsstring
  | GetAvailability jsstring jsstring

text \<open>
  The order of a create-order response, \<open>{ id, amount, currency, status? }\<close>, and the
  response \<open>{ key_id, order }\<close>. These bodies are taken in the shape the backend gives
  them; the body of booking-create stays an arbitrary value, since the code guards it.
\<close>

record rzp_order =
  ord_id :: jsstring
  ord_amount :: int
  ord_currency :: jsstring
  ord_status :: "jsstring option"

record order_response =
  key_id :: jsstring
  order_of :: rzp_order

record availability_counts =
  Deluxe :: int
  Suite :: int
  Standard :: int

text \<open>What the checkout widget passes to its success handler.\<close>

record razorpay_response =
  razorpay_order_id :: jsstring
  razorpay_payment_id :: jsstring
  razorpay_signature :: jsstring

text \<open>The options object given to \<open>new window.Razorpay(...)\<close>.\<close>

record checkout_options =
  key :: jsstring
  order_id :: jsstring
  name :: jsstring
  description :: jsstring
  prefill_name :: jsstring
  prefill_email :: jsstring
  notes_booking_id :: json
  theme_color :: "jsstring option"

text \<open>The result of an awaited call: the data it resolves with, or the rejection value.\<close>

datatype payload =
    NoData
  | ChatData jsstring
  | BookingData json
  | OrderData order_response
  | SdkPresent bool
  | AvailData availability_counts

datatype outcome = Resolved payload | Rejected json

text \<open>
  A component together with what it has done to the outside: the requests issued, the
  arguments of \<open>alert\<close>, the values logged with \<open>console.error\<close>, the rejections that no
  handler caught, the checkout widgets opened, the suspended \<open>await\<close>s, and whether
  \<open>window.Razorpay\<close> is defined.
\<close>

record ('c, 'p) world =
  comp :: 'c
  requests :: "request list"
  alerts :: "json list"
  console :: "json list"
  unhandled :: "json list"
  checkouts :: "checkout_options list"
  inflight :: "'p list"
  window_Razorpay :: bool

definition drop_nth :: "nat \<Rightarrow> 'a list \<Rightarrow> 'a list" where
  "drop_nth i xs = take i xs @ drop (Suc i) xs"

section \<open>The Chatbot component\<close>

text \<open>
  The sections \<open>"faq"\<close>, \<open>"request"\<close>, \<open>"booking"\<close> and \<open>"faqList"\<close>; \<open>null\<close> is the main menu.
\<close>

datatype panel = Faq | Request | Booking | FaqList

datatype sender = User | Bot

record chat_message =
  sender :: sender
  msg_text :: jsstring

text \<open>\<open>paySummary\<close>: \<open>{ amount, currency, orderId }\<close>, with \<open>status\<close> once it has been set.\<close>

record pay_summary =
  amount :: int
  currency :: jsstring
  orderId :: jsstring
  status :: "jsstring option"

text \<open>One field for each \<open>useState\<close> of the component.\<close>

record chatbot =
  cur_section :: "panel option"
  chatMessages :: "chat_message list"
  currentInput :: jsstring
  roomNumber :: jsstring
  phoneNumber :: jsstring
  requestText :: jsstring
  requestSuccess :: bool
  email :: jsstring
  roomType :: jsstring
  checkIn :: jsstring
  checkOut :: jsstring
  bookingSuccess :: jsstring
  availability :: "availability_counts option"
  openFAQ :: "nat option"
  isRequestLoading :: bool
  isBookingLoading :: bool
  isCheckingLoading :: bool
  paySummary :: "pay_summary option"
  loading :: bool

text \<open>
  A suspended \<open>await\<close> of the component, with the variables of the closure that the code
  after it still reads: the email, the booking id, the key and the order.
\<close>

datatype pending =
    PendPing
  | PendChat
  | PendRequest
  | PendAvailability
  | PendBooking jsstring
  | PendCreateOrder jsstring json
  | PendLoadRazorpay jsstring json jsstring rzp_order
  | PendVerify

type_synonym cworld = "(chatbot, pending) world"

definition initial_chatbot :: chatbot where
  "initial_chatbot =
     \<lparr>cur_section = None,
      chatMessages = [\<lparr>sender = Bot, msg_text = str ''How can I help you today?''\<rparr>],
      currentInput = [], roomNumber = [], phoneNumber = [], requestText = [],
      requestSuccess = False, email = [], roomType = str ''Deluxe'', checkIn = [],
      checkOut = [], bookingSuccess = [], availability = None, openFAQ = None,
      isRequestLoading = False, isBookingLoading = False, isCheckingLoading = False,
      paySummary = None, loading = True\<rparr>"

text \<open>Mounting the component runs the effect that pings the backend.\<close>

definition Chatbot :: "bool \<Rightarrow> cworld" where
  "Chatbot rzp =
     \<lparr>comp = initial_chatbot, requests = [GetPing], alerts = [], console = [],
      unhandled = [], checkouts = [], inflight = [PendPing], window_Razorpay = rzp\<rparr>"

definition goHome :: "cworld \<Rightarrow> cworld" where
  "goHome w = w\<lparr>comp := (comp w)
     \<lparr>email := [], roomType := str ''Deluxe'', checkIn := [], checkOut := [],
      availability := None, paySummary := None, bookingSuccess := [],
      isBookingLoading := False, isCheckingLoading := False,
      roomNumber := [], phoneNumber := [], requestText := [],
      isRequestLoading := False, requestSuccess := False,
      cur_section := None\<rparr>\<rparr>"

subsection \<open>Chat\<close>

definition handleChatSubmit :: "cworld \<Rightarrow> cworld" where
  "handleChatSubmit w =
     (let c = comp w in
      if trim (currentInput c) = [] then w
      else w\<lparr>comp := c\<lparr>chatMessages := chatMessages c @ [\<lparr>sender = User, msg_text = currentInput c\<rparr>],
                        currentInput := []\<rparr>,
             requests := requests w
               @ [PostChat (if email c = [] then str ''guest'' else email c) (currentInput c)],
             inflight := inflight w @ [PendChat]\<rparr>)"

definition handleChatSubmit_resolved :: "jsstring \<Rightarrow> cworld \<Rightarrow> cworld" where
  "handleChatSubmit_resolved r w =
     w\<lparr>comp := (comp w)\<lparr>chatMessages := chatMessages (comp w) @ [\<lparr>sender = Bot, msg_text = r\<rparr>],
                         currentInput := []\<rparr>\<rparr>"

definition handleChatSubmit_rejected :: "json \<Rightarrow> cworld \<Rightarrow> cworld" where
  "handleChatSubmit_rejected err w = w\<lparr>console := console w @ [err]\<rparr>"

subsection \<open>Room service\<close>

definition handleRequestSubmit :: "cworld \<Rightarrow> cworld" where
  "handleRequestSubmit w =
     (let c = comp w in
      if roomNumber c = [] \<or> phoneNumber c = [] \<or> requestText c = []
      then w\<lparr>alerts := alerts w @ [JStr (str ''Please fill all fields.'')]\<rparr>
      else w\<lparr>comp := c\<lparr>isRequestLoading := True\<rparr>,
             requests := requests w @ [PostRequest (roomNumber c) (phoneNumber c) (requestText c)],
             inflight := inflight w @ [PendRequest]\<rparr>)"

definition handleRequestSubmit_resolved :: "cworld \<Rightarrow> cworld" where
  "handleRequestSubmit_resolved w =
     w\<lparr>comp := (comp w)\<lparr>requestSuccess := True, roomNumber := [], phoneNumber := [],
                         requestText := [], isRequestLoading := False\<rparr>\<rparr>"

text \<open>\<open>try ... finally\<close> without \<open>catch\<close>: the flag is reset and the rejection leaves the handler.\<close>

definition handleRequestSubmit_rejected :: "json \<Rightarrow> cworld \<Rightarrow> cworld" where
  "handleRequestSubmit_rejected err w =
     w\<lparr>comp := (comp w)\<lparr>isRequestLoading := False\<rparr>, unhandled := unhandled w @ [err]\<rparr>"

subsection \<open>Availability\<close>

definition checkRoomAvailability :: "cworld \<Rightarrow> cworld" where
  "checkRoomAvailability w =
     (let c = comp w in
      if checkIn c = [] \<or> checkOut c = []
      then w\<lparr>alerts := alerts w @ [JStr (str ''Select both check-in & check-out dates.'')]\<rparr>
      else w\<lparr>comp := c\<lparr>isCheckingLoading := True\<rparr>,
             requests := requests w @ [GetAvailability (checkIn c) (checkOut c)],
             inflight := inflight w @ [PendAvailability]\<rparr>)"

definition checkRoomAvailability_resolved :: "availability_counts \<Rightarrow> cworld \<Rightarrow> cworld" where
  "checkRoomAvailability_resolved d w =
     w\<lparr>comp := (comp w)\<lparr>availability := Some d, isCheckingLoading := False\<rparr>\<rparr>"

definition checkRoomAvailability_rejected :: "json \<Rightarrow> cworld \<Rightarrow> cworld" where
  "checkRoomAvailability_rejected err w =
     w\<lparr>comp := (comp w)\<lparr>isCheckingLoading := False\<rparr>,
       console := console w @ [err],
       alerts := alerts w @ [JStr (str ''Failed to fetch availability.'')]\<rparr>"

subsection \<open>Book and pay\<close>

text \<open>The \<open>catch\<close> and \<open>finally\<close> blocks of \<open>handleBookingSubmit\<close>.\<close>

definition handleBookingSubmit_catch :: "json \<Rightarrow> cworld \<Rightarrow> cworld" where
  "handleBookingSubmit_catch err w =
     w\<lparr>comp := (comp w)\<lparr>isBookingLoading := False\<rparr>,
       console := console w @ [err],
       alerts := alerts w
         @ [js_or (js_or (detail_of err) (opt_get err (str ''message'')))
                  (JStr (str ''Booking/payment failed.''))]\<rparr>"

text \<open>Step 4: the widget is built and opened, then \<open>finally\<close> runs.\<close>

definition handleBookingSubmit_open :: "jsstring \<Rightarrow> json \<Rightarrow> jsstring \<Rightarrow> rzp_order \<Rightarrow> cworld \<Rightarrow> cworld" where
  "handleBookingSubmit_open em bid k ord w =
     w\<lparr>comp := (comp w)\<lparr>isBookingLoading := False\<rparr>,
       checkouts := checkouts w
         @ [\<lparr>key = k, order_id = ord_id ord, name = str ''The Grand Palace Hotel'',
             description = str ''Room booking for '' @ em,
             prefill_name = em, prefill_email = em, notes_booking_id = bid,
             theme_color = None\<rparr>]\<rparr>"

text \<open>After \<open>await loadRazorpay()\<close>: the check of \<open>window.Razorpay\<close>.\<close>

definition handleBookingSubmit_loaded :: "jsstring \<Rightarrow> json \<Rightarrow> jsstring \<Rightarrow> rzp_order \<Rightarrow> cworld \<Rightarrow> cworld" where
  "handleBookingSubmit_loaded em bid k ord w =
     (if \<not> window_Razorpay w
      then handleBookingSubmit_catch (Error (str ''Razorpay SDK not available'')) w
      else handleBookingSubmit_open em bid k ord w)"

text \<open>
  After the create-order response: the summary is set, then \<open>loadRazorpay()\<close> is awaited.
  It resolves at once when \<open>window.Razorpay\<close> is there, else it waits for the script.
\<close>

definition handleBookingSubmit_ordered :: "jsstring \<Rightarrow> json \<Rightarrow> order_response \<Rightarrow> cworld \<Rightarrow> cworld" where
  "handleBookingSubmit_ordered em bid r w =
     (let ord = order_of r;
          w1 = w\<lparr>comp := (comp w)\<lparr>paySummary :=
                   Some \<lparr>amount = ord_amount ord, currency = ord_currency ord,
                         orderId = ord_id ord, status = None\<rparr>\<rparr>\<rparr>
      in if window_Razorpay w1 then handleBookingSubmit_loaded em bid (key_id r) ord w1
         else w1\<lparr>inflight := inflight w1 @ [PendLoadRazorpay em bid (key_id r) ord]\<rparr>)"

text \<open>After the booking-create response: \<open>bookRes.data?.booking\<close> and the guard on its id.\<close>

definition handleBookingSubmit_booked :: "jsstring \<Rightarrow> json \<Rightarrow> cworld \<Rightarrow> cworld" where
  "handleBookingSubmit_booked em d w =
     (let booking = opt_get d (str ''booking'') in
      if \<not> truthy (opt_get booking (str ''id''))
      then handleBookingSubmit_catch (Error (str ''Booking create failed'')) w
      else w\<lparr>requests := requests w @ [PostCreateOrder (opt_get booking (str ''id''))],
             inflight := inflight w @ [PendCreateOrder em (opt_get booking (str ''id''))]\<rparr>)"

definition handleBookingSubmit :: "cworld \<Rightarrow> cworld" where
  "handleBookingSubmit w =
     (let c = comp w in
      if email c = [] \<or> checkIn c = [] \<or> checkOut c = []
      then w\<lparr>alerts := alerts w @ [JStr (str ''Please fill all fields.'')]\<rparr>
      else w\<lparr>comp := c\<lparr>isBookingLoading := True\<rparr>,
             requests := requests w
               @ [PostBooking (email c) (email c) (roomType c) (checkIn c) (checkOut c)],
             inflight := inflight w @ [PendBooking (email c)]\<rparr>)"

text \<open>The widget's success handler: the verify call, and what follows it.\<close>

definition payment_handler :: "razorpay_response \<Rightarrow> cworld \<Rightarrow> cworld" where
  "payment_handler resp w =
     w\<lparr>requests := requests w
          @ [PostVerify (razorpay_order_id resp) (razorpay_payment_id resp) (razorpay_signature resp)],
       inflight := inflight w @ [PendVerify]\<rparr>"

text \<open>The banner starts with U+2705, the check mark.\<close>

definition payment_successful :: jsstring where
  "payment_successful = 0x2705 # str '' Payment successful! Your booking is confirmed.''"

definition payment_handler_resolved :: "cworld \<Rightarrow> cworld" where
  "payment_handler_resolved w =
     w\<lparr>comp := (comp w)
        \<lparr>paySummary := (case paySummary (comp w) of
                          Some prev \<Rightarrow> Some (prev\<lparr>status := Some (str ''paid'')\<rparr>)
                        | None \<Rightarrow> None),
         bookingSuccess := payment_successful,
         email := [], roomType := str ''Deluxe'', checkIn := [], checkOut := [],
         availability := None\<rparr>\<rparr>"

text \<open>The handler has no \<open>try\<close>: a rejected verify call rejects the handler's promise.\<close>

definition payment_handler_rejected :: "json \<Rightarrow> cworld \<Rightarrow> cworld" where
  "payment_handler_rejected err w = w\<lparr>unhandled := unhandled w @ [err]\<rparr>"

subsection \<open>Events\<close>

text \<open>
  What can happen to the mounted component: the user acts on a control that is rendered
  and enabled, a suspended call settles, or the checkout widget reports a payment.
  An event on a control that is not rendered, or is disabled, changes nothing; the room
  type select offers its three options and no other value.
  Speech input (the microphone buttons) is outside the model.
\<close>

datatype event =
    Navigate panel
  | Back
  | GoHome
  | TypeCurrentInput jsstring
  | TypeRoomNumber jsstring
  | TypePhoneNumber jsstring
  | TypeRequestText jsstring
  | TypeEmail jsstring
  | SelectRoomType jsstring
  | PickCheckIn jsstring
  | PickCheckOut jsstring
  | ToggleFAQ nat
  | ClickChatSend
  | ClickSendRequest
  | ClickCheckAvailability
  | ClickBookPay
  | Settle nat outcome
  | CheckoutSuccess razorpay_response

text \<open>The code after an \<open>await\<close>, for the call's outcome; \<open>None\<close> for data of another call.\<close>

fun resume :: "pending \<Rightarrow> outcome \<Rightarrow> cworld \<Rightarrow> cworld option" where
  "resume PendPing (Resolved d) w = Some (w\<lparr>comp := (comp w)\<lparr>loading := False\<rparr>\<rparr>)"
| "resume PendPing (Rejected e) w =
     Some (w\<lparr>comp := initial_chatbot, console := console w @ [e],
             requests := requests w @ [GetPing], inflight := [PendPing],
             window_Razorpay := False\<rparr>)"
| "resume PendChat (Resolved (ChatData r)) w = Some (handleChatSubmit_resolved r w)"
| "resume PendChat (Rejected e) w = Some (handleChatSubmit_rejected e w)"
| "resume PendRequest (Resolved d) w = Some (handleRequestSubmit_resolved w)"
| "resume PendRequest (Rejected e) w = Some (handleRequestSubmit_rejected e w)"
| "resume PendAvailability (Resolved (AvailData d)) w = Some (checkRoomAvailability_resolved d w)"
| "resume PendAvailability (Rejected e) w = Some (checkRoomAvailability_rejected e w)"
| "resume (PendBooking em) (Resolved (BookingData d)) w = Some (handleBookingSubmit_booked em d w)"
| "resume (PendBooking em) (Rejected e) w = Some (handleBookingSubmit_catch e w)"
| "resume (PendCreateOrder em bid) (Resolved (OrderData r)) w =
     Some (handleBookingSubmit_ordered em bid r w)"
| "resume (PendCreateOrder em bid) (Rejected e) w = Some (handleBookingSubmit_catch e w)"
| "resume (PendLoadRazorpay em bid k ord) (Resolved (SdkPresent b)) w =
     Some (handleBookingSubmit_loaded em bid k ord (w\<lparr>window_Razorpay := b\<rparr>))"
| "resume (PendLoadRazorpay em bid k ord) (Rejected e) w =
     Some (handleBookingSubmit_catch (Error (str ''Failed to load Razorpay'')) w)"
| "resume PendVerify (Resolved d) w = Some (payment_handler_resolved w)"
| "resume PendVerify (Rejected e) w = Some (payment_handler_rejected e w)"
| "resume p out w = None"

definition settle :: "nat \<Rightarrow> outcome \<Rightarrow> cworld \<Rightarrow> cworld" where
  "settle i out w =
     (if i < length (inflight w)
      then (case resume (inflight w ! i) out (w\<lparr>inflight := drop_nth i (inflight w)\<rparr>) of
              Some w' \<Rightarrow> w' | None \<Rightarrow> w)
      else w)"

text \<open>The values of the three options of the room type select.\<close>

definition room_options :: "jsstring list" where
  "room_options = [str ''Deluxe'', str ''Suite'', str ''Standard'']"

definition shows_panel :: "panel option \<Rightarrow> cworld \<Rightarrow> bool" where
  "shows_panel p w \<longleftrightarrow> \<not> loading (comp w) \<and> cur_section (comp w) = p"

fun step :: "event \<Rightarrow> cworld \<Rightarrow> cworld" where
  "step (Navigate p) w =
     (if shows_panel None w then w\<lparr>comp := (comp w)\<lparr>cur_section := Some p\<rparr>\<rparr> else w)"
| "step Back w =
     (if shows_panel (Some Faq) w \<or> shows_panel (Some FaqList) w
      then w\<lparr>comp := (comp w)\<lparr>cur_section := None\<rparr>\<rparr> else w)"
| "step GoHome w =
     (if shows_panel (Some Request) w \<or> shows_panel (Some Booking) w then goHome w else w)"
| "step (TypeCurrentInput v) w =
     (if shows_panel (Some Faq) w then w\<lparr>comp := (comp w)\<lparr>currentInput := v\<rparr>\<rparr> else w)"
| "step (TypeRoomNumber v) w =
     (if shows_panel (Some Request) w then w\<lparr>comp := (comp w)\<lparr>roomNumber := v\<rparr>\<rparr> else w)"
| "step (TypePhoneNumber v) w =
     (if shows_panel (Some Request) w then w\<lparr>comp := (comp w)\<lparr>phoneNumber := v\<rparr>\<rparr> else w)"
| "step (TypeRequestText v) w =
     (if shows_panel (Some Request) w then w\<lparr>comp := (comp w)\<lparr>requestText := v\<rparr>\<rparr> else w)"
| "step (TypeEmail v) w =
     (if shows_panel (Some Booking) w then w\<lparr>comp := (comp w)\<lparr>email := v\<rparr>\<rparr> else w)"
| "step (SelectRoomType v) w =
     (if shows_panel (Some Booking) w \<and> v \<in> set room_options
      then w\<lparr>comp := (comp w)\<lparr>roomType := v\<rparr>\<rparr> else w)"
| "step (PickCheckIn v) w =
     (if shows_panel (Some Booking) w then w\<lparr>comp := (comp w)\<lparr>checkIn := v\<rparr>\<rparr> else w)"
| "step (PickCheckOut v) w =
     (if shows_panel (Some Booking) w then w\<lparr>comp := (comp w)\<lparr>checkOut := v\<rparr>\<rparr> else w)"
| "step (ToggleFAQ idx) w =
     (if shows_panel (Some FaqList) w \<and> idx < 12
      then w\<lparr>comp := (comp w)\<lparr>openFAQ := (if openFAQ (comp w) = Some idx then None else Some idx)\<rparr>\<rparr>
      else w)"
| "step ClickChatSend w = (if shows_panel (Some Faq) w then handleChatSubmit w else w)"
| "step ClickSendRequest w =
     (if shows_panel (Some Request) w \<and> \<not> isRequestLoading (comp w)
      then handleRequestSubmit w else w)"
| "step ClickCheckAvailability w =
     (if shows_panel (Some Booking) w \<and> \<not> isCheckingLoading (comp w)
      then checkRoomAvailability w else w)"
| "step ClickBookPay w =
     (if shows_panel (Some Booking) w \<and> \<not> isBookingLoading (comp w)
      then handleBookingSubmit w else w)"
| "step (Settle i out) w = settle i out w"
| "step (CheckoutSuccess resp) w = (if checkouts w = [] then w else payment_handler resp w)"

fun run :: "event list \<Rightarrow> cworld \<Rightarrow> cworld" where
  "run [] w = w"
| "run (e # es) w = run es (step e w)"

subsection \<open>What the booking section renders\<close>

text \<open>The chip of the payment summary: its class and its text.\<close>

definition chip_class :: "pay_summary \<Rightarrow> jsstring" where
  "chip_class ps = (if status ps = Some (str ''paid'') then str ''chip--paid'' else str ''chip--pending'')"

definition chip_text :: "pay_summary \<Rightarrow> jsstring" where
  "chip_text ps = (if status ps = Some (str ''paid'') then str ''Paid'' else str ''Payment Pending'')"

text \<open>The rupee sign U+20B9, the amount with two decimals, a space, the currency.\<close>

definition amount_text :: "int \<Rightarrow> jsstring \<Rightarrow> jsstring option" where
  "amount_text a cur = map_option (\<lambda>t. 0x20B9 # t @ str '' '' @ cur) (toFixed2_cents a)"

definition price_line :: "pay_summary \<Rightarrow> jsstring option" where
  "price_line ps = map_option (\<lambda>t. str ''Amount: '' @ t) (amount_text (amount ps) (currency ps))"

text \<open>The summary and the availability list appear in the booking section only.\<close>

definition shown_summary :: "cworld \<Rightarrow> pay_summary option" where
  "shown_summary w = (if shows_panel (Some Booking) w then paySummary (comp w) else None)"

definition shown_availability :: "cworld \<Rightarrow> availability_counts option" where
  "shown_availability w = (if shows_panel (Some Booking) w then availability (comp w) else None)"

text \<open>The amount that the shown summary displays after the label.\<close>

definition shown_amount :: "cworld \<Rightarrow> jsstring option" where
  "shown_amount w =
     (case shown_summary w of
        None \<Rightarrow> None
      | Some ps \<Rightarrow> amount_text (amount ps) (currency ps))"

section \<open>The Payment Page component\<close>

record payment_page =
  bookingId :: jsstring
  creating :: bool
  order :: "rzp_order option"
  keyId :: jsstring
  sdkReady :: bool

datatype ppending = PayLoadRazorpay | PayCreateOrder | PayVerify

type_synonym pworld = "(payment_page, ppending) world"

text \<open>
  Mounting the page runs the effect that calls \<open>loadRazorpay()\<close>; its promise is pending
  until the script (or, with the SDK already there, the next tick) settles it.
\<close>

definition PaymentPage :: "bool \<Rightarrow> pworld" where
  "PaymentPage rzp =
     \<lparr>comp = \<lparr>bookingId = [], creating = False, order = None, keyId = [], sdkReady = False\<rparr>,
      requests = [], alerts = [], console = [], unhandled = [], checkouts = [],
      inflight = [PayLoadRazorpay], window_Razorpay = rzp\<rparr>"

definition createOrder :: "pworld \<Rightarrow> pworld" where
  "createOrder w =
     (let c = comp w in
      if trim (bookingId c) = []
      then w\<lparr>alerts := alerts w @ [JStr (str ''Enter a Booking ID first.'')]\<rparr>
      else w\<lparr>comp := c\<lparr>creating := True\<rparr>,
             requests := requests w @ [PostCreateOrder (JStr (bookingId c))],
             inflight := inflight w @ [PayCreateOrder]\<rparr>)"

definition createOrder_resolved :: "order_response \<Rightarrow> pworld \<Rightarrow> pworld" where
  "createOrder_resolved r w =
     w\<lparr>comp := (comp w)\<lparr>order := Some (order_of r), keyId := key_id r, creating := False\<rparr>,
       alerts := alerts w @ [JStr (str ''Order created: '' @ ord_id (order_of r))]\<rparr>"

definition createOrder_rejected :: "json \<Rightarrow> pworld \<Rightarrow> pworld" where
  "createOrder_rejected e w =
     w\<lparr>comp := (comp w)\<lparr>creating := False\<rparr>,
       console := console w @ [e],
       alerts := alerts w
         @ [js_or (detail_of e) (JStr (str ''Failed to create order. Check backend logs.''))]\<rparr>"

definition payNow :: "pworld \<Rightarrow> pworld" where
  "payNow w =
     (let c = comp w in
      case order c of
        None \<Rightarrow> w\<lparr>alerts := alerts w @ [JStr (str ''Create an order first.'')]\<rparr>
      | Some ord \<Rightarrow>
          if keyId c = [] then w\<lparr>alerts := alerts w @ [JStr (str ''Create an order first.'')]\<rparr>
          else if \<not> sdkReady c \<or> \<not> window_Razorpay w
          then w\<lparr>alerts := alerts w @ [JStr (str ''Razorpay SDK not loaded yet.'')]\<rparr>
          else w\<lparr>checkouts := checkouts w
                 @ [\<lparr>key = keyId c, order_id = ord_id ord, name = str ''The Grand Palace Hotel'',
                     description = str ''Room booking payment'',
                     prefill_name = str ''Guest'', prefill_email = str ''guest@example.com'',
                     notes_booking_id = JStr (bookingId c),
                     theme_color = Some (str ''#3399cc'')\<rparr>]\<rparr>)"

text \<open>The success handler of the page's widget, with its \<open>try ... catch\<close>.\<close>

definition pay_handler :: "razorpay_response \<Rightarrow> pworld \<Rightarrow> pworld" where
  "pay_handler resp w =
     w\<lparr>requests := requests w
          @ [PostVerify (razorpay_order_id resp) (razorpay_payment_id resp) (razorpay_signature resp)],
       inflight := inflight w @ [PayVerify]\<rparr>"

definition payment_verified :: jsstring where
  "payment_verified = 0x2705 # str '' Payment verified! Booking confirmed.''"

definition payment_cancelled :: jsstring where
  "payment_cancelled = 0x274C # str '' Payment cancelled by user.''"

definition pay_handler_resolved :: "pworld \<Rightarrow> pworld" where
  "pay_handler_resolved w = w\<lparr>alerts := alerts w @ [JStr payment_verified]\<rparr>"

definition pay_handler_rejected :: "json \<Rightarrow> pworld \<Rightarrow> pworld" where
  "pay_handler_rejected e w =
     w\<lparr>console := console w @ [e],
       alerts := alerts w
         @ [js_or (detail_of e) (JStr (str ''Verification failed. See server logs for details.''))]\<rparr>"

datatype pevent =
    TypeBookingId jsstring
  | ClickCreateOrder
  | ClickPayNow
  | PSettle nat outcome
  | PCheckoutSuccess razorpay_response
  | PCheckoutDismiss

fun pay_resume :: "ppending \<Rightarrow> outcome \<Rightarrow> pworld \<Rightarrow> pworld option" where
  "pay_resume PayLoadRazorpay (Resolved (SdkPresent b)) w =
     Some (w\<lparr>comp := (comp w)\<lparr>sdkReady := True\<rparr>, window_Razorpay := b\<rparr>)"
| "pay_resume PayLoadRazorpay (Rejected e) w =
     Some (w\<lparr>alerts := alerts w
              @ [JStr (str ''Could not load Razorpay. Check your network/adblock.'')]\<rparr>)"
| "pay_resume PayCreateOrder (Resolved (OrderData r)) w = Some (createOrder_resolved r w)"
| "pay_resume PayCreateOrder (Rejected e) w = Some (createOrder_rejected e w)"
| "pay_resume PayVerify (Resolved d) w = Some (pay_handler_resolved w)"
| "pay_resume PayVerify (Rejected e) w = Some (pay_handler_rejected e w)"
| "pay_resume p out w = None"

definition psettle :: "nat \<Rightarrow> outcome \<Rightarrow> pworld \<Rightarrow> pworld" where
  "psettle i out w =
     (if i < length (inflight w)
      then (case pay_resume (inflight w ! i) out (w\<lparr>inflight := drop_nth i (inflight w)\<rparr>) of
              Some w' \<Rightarrow> w' | None \<Rightarrow> w)
      else w)"

text \<open>The \<open>disabled\<close> attribute of the two buttons.\<close>

definition create_disabled :: "payment_page \<Rightarrow> bool" where
  "create_disabled c \<longleftrightarrow> creating c"

definition pay_disabled :: "payment_page \<Rightarrow> bool" where
  "pay_disabled c \<longleftrightarrow> order c = None \<or> keyId c = [] \<or> \<not> sdkReady c"

fun pstep :: "pevent \<Rightarrow> pworld \<Rightarrow> pworld" where
  "pstep (TypeBookingId v) w = w\<lparr>comp := (comp w)\<lparr>bookingId := v\<rparr>\<rparr>"
| "pstep ClickCreateOrder w = (if create_disabled (comp w) then w else createOrder w)"
| "pstep ClickPayNow w = (if pay_disabled (comp w) then w else payNow w)"
| "pstep (PSettle i out) w = psettle i out w"
| "pstep (PCheckoutSuccess resp) w = (if checkouts w = [] then w else pay_handler resp w)"
| "pstep PCheckoutDismiss w =
     (if checkouts w = [] then w else w\<lparr>alerts := alerts w @ [JStr payment_cancelled]\<rparr>)"

fun prun :: "pevent list \<Rightarrow> pworld \<Rightarrow> pworld" where
  "prun [] w = w"
| "prun (e # es) w = prun es (pstep e w)"

text \<open>What the order box renders: the status line and the amount line.\<close>

definition status_text :: "rzp_order \<Rightarrow> jsstring" where
  "status_text ord =
     (case ord_status ord of
        None \<Rightarrow> str ''created''
      | Some s \<Rightarrow> if s = [] then str ''created'' else s)"

definition order_amount_text :: "rzp_order \<Rightarrow> jsstring option" where
  "order_amount_text ord = amount_text (ord_amount ord) (ord_currency ord)"

text \<open>The order box is rendered once there is an order.\<close>

definition shown_order_amount :: "pworld \<Rightarrow> jsstring option" where
  "shown_order_amount v =
     (case order (comp v) of
        None \<Rightarrow> None
      | Some ord \<Rightarrow> order_amount_text ord)"

section \<open>Properties to state, and example runs\<close>

text \<open>A suspended call of kind \<open>p\<close> sits at position \<open>i\<close>.\<close>

definition pending_at :: "('c, 'p) world \<Rightarrow> nat \<Rightarrow> 'p \<Rightarrow> bool" where
  "pending_at w i p \<longleftrightarrow> i < length (inflight w) \<and> inflight w ! i = p"

text \<open>The event is the success of a verify call; a run contains such an event.\<close>

fun verify_succeeds :: "event \<Rightarrow> cworld \<Rightarrow> bool" where
  "verify_succeeds (Settle i (Resolved d)) w = pending_at w i PendVerify"
| "verify_succeeds e w = False"

fun verified_in :: "event list \<Rightarrow> cworld \<Rightarrow> bool" where
  "verified_in [] w = False"
| "verified_in (e # es) w = (verify_succeeds e w \<or> verified_in es (step e w))"

text \<open>The summary, if there is one, renders the pending chip.\<close>

definition chip_pending :: "cworld \<Rightarrow> bool" where
  "chip_pending w \<longleftrightarrow>
     (case paySummary (comp w) of
        None \<Rightarrow> True
      | Some ps \<Rightarrow> chip_text ps = str ''Payment Pending'' \<and> chip_class ps = str ''chip--pending'')"


text \<open>The backend is up and the guest has opened a section.\<close>

definition opened :: "panel \<Rightarrow> bool \<Rightarrow> cworld" where
  "opened p rzp = run [Settle 0 (Resolved NoData), Navigate p] (Chatbot rzp)"

text \<open>The booking form of the example scenario, filled in.\<close>

definition fill_form :: "event list" where
  "fill_form =
     [TypeEmail (str ''guest@example.com''), SelectRoomType (str ''Suite''),
      PickCheckIn (str ''2024-06-01''), PickCheckOut (str ''2024-06-03'')]"

definition example_booking :: json where
  "example_booking = JObj [(str ''booking'', JObj [(str ''id'', JStr (str ''abc-123''))])]"

definition example_order :: order_response where
  "example_order =
     \<lparr>key_id = str ''rzp_test_x'',
      order_of = \<lparr>ord_id = str ''order_1'', ord_amount = 400000, ord_currency = str ''INR'',
                  ord_status = None\<rparr>\<rparr>"

text \<open>Book and pay up to the open checkout widget.\<close>

definition book_and_pay :: "event list" where
  "book_and_pay =
     fill_form @ [ClickBookPay, Settle 0 (Resolved (BookingData example_booking)),
                  Settle 0 (Resolved (OrderData example_order))]"

definition example_payment :: razorpay_response where
  "example_payment =
     \<lparr>razorpay_order_id = str ''order_1'', razorpay_payment_id = str ''pay_1'',
      razorpay_signature = str ''sig''\<rparr>"

text \<open>A rejection that carries a detail message of the server.\<close>

definition server_error :: json where
  "server_error =
     JObj [(str ''message'', JStr (str ''Request failed with status code 400'')),
           (str ''response'', JObj [(str ''data'', JObj [(str ''detail'', JStr (str ''Invalid signature''))])])]"

text \<open>The Payment Page with the SDK loaded and an order created for a booking id.\<close>

definition order_for :: "jsstring \<Rightarrow> pevent list" where
  "order_for bid =
     [PSettle 0 (Resolved (SdkPresent True)), TypeBookingId bid, ClickCreateOrder,
      PSettle 0 (Resolved (OrderData example_order))]"

text \<open>
  After the payment is verified the guest fills the form again and checks availability.
\<close>

definition after_payment :: "event list" where
  "after_payment =
     book_and_pay @ [CheckoutSuccess example_payment, Settle 0 (Resolved NoData),
       TypeEmail (str ''guest@example.com''), SelectRoomType (str ''Standard''),
       PickCheckIn (str ''2024-07-01''), PickCheckOut (str ''2024-07-02''),
       ClickCheckAvailability,
       Settle 0 (Resolved (AvailData \<lparr>Deluxe = 3, Suite = 1, Standard = 0\<rparr>))]"

text \<open>
  A query is started, the guest goes back and starts a second one while the first is
  still in flight; the second one is answered first.
\<close>

definition overlapping_queries :: "event list" where
  "overlapping_queries =
     [PickCheckIn (str ''2024-06-01''), PickCheckOut (str ''2024-06-03''), ClickCheckAvailability,
      GoHome, Navigate Booking,
      PickCheckIn (str ''2024-07-01''), PickCheckOut (str ''2024-07-02''), ClickCheckAvailability,
      Settle 1 (Resolved (AvailData \<lparr>Deluxe = 5, Suite = 2, Standard = 7\<rparr>))]"

text \<open>The widget has reported a payment and the verify call is in flight.\<close>

definition paying :: "event list" where
  "paying = book_and_pay @ [CheckoutSuccess example_payment]"

definition page_paying :: "pevent list" where
  "page_paying = order_for (str ''abc-123'') @ [ClickPayNow, PCheckoutSuccess example_payment]"

text \<open>Calls in flight: an availability query, a chat message, a room-service request.\<close>

definition check_query :: "event list" where
  "check_query = [PickCheckIn (str ''2024-06-01''), PickCheckOut (str ''2024-06-03''), ClickCheckAvailability]"

definition chatting :: "event list" where
  "chatting = [TypeCurrentInput (str ''Is breakfast free?''), ClickChatSend]"

definition requesting :: "event list" where
  "requesting = [TypeRoomNumber (str ''101''), TypePhoneNumber (str ''5550100''),
                 TypeRequestText (str ''Two towels''), ClickSendRequest]"

text \<open>The book-and-pay flow waiting for the booking, and then for the order.\<close>

definition booking_requested :: "event list" where
  "booking_requested = fill_form @ [ClickBookPay]"

definition order_requested :: "event list" where
  "order_requested = booking_requested @ [Settle 0 (Resolved (BookingData example_booking))]"

text \<open>The Payment Page waiting for the order.\<close>

definition page_creating :: "pevent list" where
  "page_creating = [PSettle 0 (Resolved (SdkPresent True)), TypeBookingId (str ''abc-123''), ClickCreateOrder]"

text \<open>
  A second chat message sent while the first is in flight; a second booking submitted
  after going back while the first is in flight.
\<close>

definition chatting_twice :: "event list" where
  "chatting_twice = chatting @ [TypeCurrentInput (str ''Do you allow pets?''), ClickChatSend]"

definition booking_twice :: "event list" where
  "booking_twice = booking_requested @ [GoHome, Navigate Booking] @ booking_requested"


text \<open>
  The number that a string of decimal digits denotes, to say what a displayed amount
  reads as.
\<close>

definition is_digit :: "nat \<Rightarrow> bool" where
  "is_digit c \<longleftrightarrow> 48 \<le> c \<and> c \<le> 57"

definition digits_value :: "jsstring \<Rightarrow> nat" where
  "digits_value ds = foldl (\<lambda>v c. 10 * v + (c - 48)) 0 ds"

text \<open>
  The guest has left the booking section and its form fields are at their defaults; and,
  beyond that, no availability result is held and no availability query is in flight.
\<close>

definition left_booking :: "cworld \<Rightarrow> bool" where
  "left_booking w \<longleftrightarrow>
     email (comp w) = [] \<and> roomType (comp w) = str ''Deluxe'' \<and> checkIn (comp w) = []
     \<and> checkOut (comp w) = [] \<and> cur_section (comp w) \<noteq> Some Booking"

definition left_cleared :: "cworld \<Rightarrow> bool" where
  "left_cleared w \<longleftrightarrow>
     left_booking w \<and> availability (comp w) = None \<and> PendAvailability \<notin> set (inflight w)"

text \<open>
  The payment is verified, then a new availability query is started; the guest goes
  back, the query is answered at the main menu, and the booking section is opened again.
\<close>

definition paid_then_query :: "event list" where
  "paid_then_query =
     book_and_pay @ [CheckoutSuccess example_payment, Settle 0 (Resolved NoData),
       PickCheckIn (str ''2024-07-01''), PickCheckOut (str ''2024-07-02''), ClickCheckAvailability]"

definition query_answered_at_menu :: "event list" where
  "query_answered_at_menu =
     paid_then_query @ [GoHome, Settle 0 (Resolved (AvailData \<lparr>Deluxe = 3, Suite = 1, Standard = 0\<rparr>)),
                        Navigate Booking]"

text \<open>The guest visits the room-service section and the chat before coming back.\<close>

definition wandering :: "event list" where
  "wandering = [Navigate Request, TypeRoomNumber (str ''101''), GoHome, Navigate Faq,
                TypeCurrentInput (str ''Is breakfast free?''), ClickChatSend,
                Settle 0 (Resolved (ChatData (str ''Yes''))), Back]"

text \<open>
  Only the dates are filled in; the select is set to Suite, and a change event with an
  empty value is tried on it.
\<close>

definition dates_only :: "event list" where
  "dates_only = [Settle 0 (Resolved NoData), Navigate Booking, SelectRoomType (str ''Suite''),
                 SelectRoomType [], PickCheckIn (str ''2024-06-01''), PickCheckOut (str ''2024-06-03'')]"

section \<open>Unfolding the model\<close>

lemmas js_defs = str_def Error_def detail_of_def js_or_def

lemmas chatbot_defs =
  Chatbot_def initial_chatbot_def goHome_def shows_panel_def room_options_def settle_def
  drop_nth_def
  handleChatSubmit_def handleChatSubmit_resolved_def handleChatSubmit_rejected_def
  handleRequestSubmit_def handleRequestSubmit_resolved_def handleRequestSubmit_rejected_def
  checkRoomAvailability_def checkRoomAvailability_resolved_def checkRoomAvailability_rejected_def
  handleBookingSubmit_def handleBookingSubmit_booked_def handleBookingSubmit_ordered_def
  handleBookingSubmit_loaded_def handleBookingSubmit_open_def handleBookingSubmit_catch_def
  payment_handler_def payment_handler_resolved_def payment_handler_rejected_def

lemmas payment_defs =
  PaymentPage_def createOrder_def createOrder_resolved_def createOrder_rejected_def
  payNow_def pay_handler_def pay_handler_resolved_def pay_handler_rejected_def
  psettle_def drop_nth_def create_disabled_def pay_disabled_def

lemmas example_defs =
  opened_def fill_form_def example_booking_def example_order_def book_and_pay_def
  example_payment_def server_error_def order_for_def after_payment_def
  overlapping_queries_def paying_def page_paying_def check_query_def chatting_def
  requesting_def booking_requested_def order_requested_def page_creating_def
  chatting_twice_def booking_twice_def paid_then_query_def query_answered_at_menu_def
  wandering_def dates_only_def

lemma trim_blank: "list_all is_js_whitespace s \<Longrightarrow> trim s = []"
proof -
  assume "list_all is_js_whitespace s"
  then have d: "dropWhile is_js_whitespace s = []"
    by (simp add: dropWhile_eq_Nil_conv list_all_iff)
  show ?thesis by (simp only: trim_def d rev.simps dropWhile.simps)
qed

lemma trim_nonblank: "\<not> list_all is_js_whitespace s \<Longrightarrow> trim s \<noteq> []"
proof -
  assume a: "\<not> list_all is_js_whitespace s"
  then have ne: "dropWhile is_js_whitespace s \<noteq> []"
    by (simp add: dropWhile_eq_Nil_conv list_all_iff)
  then have "\<not> is_js_whitespace (hd (dropWhile is_js_whitespace s))"
    by (rule hd_dropWhile)
  moreover have "hd (dropWhile is_js_whitespace s) \<in> set (rev (dropWhile is_js_whitespace s))"
    using ne by simp
  ultimately have "dropWhile is_js_whitespace (rev (dropWhile is_js_whitespace s)) \<noteq> []"
    unfolding dropWhile_eq_Nil_conv by blast
  then show ?thesis by (simp add: trim_def)
qed

lemma catch_alert_Error:
  "m \<noteq> [] \<Longrightarrow>
   js_or (js_or (detail_of (Error m)) (opt_get (Error m) (str ''message''))) b = JStr m"
  by (simp add: js_defs)

lemma settle_at:
  "pending_at w i p \<Longrightarrow>
   settle i out w = (case resume p out (w\<lparr>inflight := drop_nth i (inflight w)\<rparr>) of
                       Some w' \<Rightarrow> w' | None \<Rightarrow> w)"
  by (simp add: pending_at_def settle_def)

lemma psettle_at:
  "pending_at v j p \<Longrightarrow>
   psettle j out v = (case pay_resume p out (v\<lparr>inflight := drop_nth j (inflight v)\<rparr>) of
                       Some v' \<Rightarrow> v' | None \<Rightarrow> v)"
  by (simp add: pending_at_def psettle_def)

lemma settle_cases:
  "settle i out w = w
   \<or> (\<exists>w'. i < length (inflight w)
          \<and> resume (inflight w ! i) out (w\<lparr>inflight := drop_nth i (inflight w)\<rparr>) = Some w'
          \<and> settle i out w = w')"
  by (auto simp add: settle_def split: option.split)

lemma set_drop_nth: "set (drop_nth i xs) \<subseteq> set xs"
proof -
  have "set (take i xs) \<subseteq> set xs" by (rule set_take_subset)
  moreover have "set (drop (Suc i) xs) \<subseteq> set xs" by (rule set_drop_subset)
  ultimately show ?thesis by (simp add: drop_nth_def)
qed

lemma run_append: "run (xs @ ys) w = run ys (run xs w)"
  by (induction xs arbitrary: w) simp_all

section \<open>Chat submission\<close>

text \<open>
  Claim C10. Submitting the chat input when it is empty or holds only whitespace does
  nothing: the handler returns the world as it got it, so no message is appended, no
  request is issued and no state changes; the same holds for the click on the send button.
\<close>

theorem chat_blank_submit_noop:
  assumes "list_all is_js_whitespace (currentInput (comp w))"
  shows "handleChatSubmit w = w \<and> step ClickChatSend w = w"
  using assms by (simp add: handleChatSubmit_def trim_blank)

theorem chat_blank_submit_noop_witness:
  "list_all is_js_whitespace (currentInput (comp (step (TypeCurrentInput [0x20, 0x09, 0xA0]) (opened Faq False))))
   \<and> step ClickChatSend (step (TypeCurrentInput [0x20, 0x09, 0xA0]) (opened Faq False))
       = step (TypeCurrentInput [0x20, 0x09, 0xA0]) (opened Faq False)
   \<and> requests (step ClickChatSend (step (TypeCurrentInput [0x20, 0x09, 0xA0]) (opened Faq False))) = [GetPing]"
proof -
  let ?w = "step (TypeCurrentInput [0x20, 0x09, 0xA0]) (opened Faq False)"
  have h: "list_all is_js_whitespace (currentInput (comp ?w))"
    by (simp add: opened_def chatbot_defs is_js_whitespace_def)
  have r: "requests ?w = [GetPing]"
    by (simp add: opened_def chatbot_defs)
  from chat_blank_submit_noop [OF h] h r show ?thesis by simp
qed

section \<open>Booking submission\<close>

text \<open>
  Claim C3. When the booking-create call resolves with a body that has no booking id
  (no \<open>booking\<close> object, no \<open>id\<close> in it, or an id that is not truthy), the flow ends with
  the alert \<open>Booking create failed\<close>: no request is issued, in particular no create-order
  request, nothing of the flow stays suspended, and the loading flag is reset.
\<close>

theorem booking_without_id_aborts:
  assumes "pending_at w i (PendBooking em)"
    and "\<not> truthy (opt_get (opt_get d (str ''booking'')) (str ''id''))"
  shows "alerts (step (Settle i (Resolved (BookingData d))) w)
           = alerts w @ [JStr (str ''Booking create failed'')]
       \<and> requests (step (Settle i (Resolved (BookingData d))) w) = requests w
       \<and> inflight (step (Settle i (Resolved (BookingData d))) w) = drop_nth i (inflight w)
       \<and> \<not> isBookingLoading (comp (step (Settle i (Resolved (BookingData d))) w))"
proof -
  have m: "str ''Booking create failed'' \<noteq> []" by (simp add: str_def)
  have "step (Settle i (Resolved (BookingData d))) w
          = handleBookingSubmit_catch (Error (str ''Booking create failed''))
              (w\<lparr>inflight := drop_nth i (inflight w)\<rparr>)"
    using assms by (simp add: pending_at_def settle_def handleBookingSubmit_booked_def)
  then show ?thesis
    by (simp add: handleBookingSubmit_catch_def catch_alert_Error [OF m])
qed

theorem booking_without_id_aborts_witness:
  "pending_at (run (fill_form @ [ClickBookPay]) (opened Booking False)) 0 (PendBooking (str ''guest@example.com''))
   \<and> \<not> truthy (opt_get (opt_get (JObj [(str ''booking'', JObj [(str ''room_type'', JStr (str ''Suite''))])]) (str ''booking'')) (str ''id''))
   \<and> alerts (step (Settle 0 (Resolved (BookingData (JObj [(str ''booking'', JObj [(str ''room_type'', JStr (str ''Suite''))])]))))
               (run (fill_form @ [ClickBookPay]) (opened Booking False)))
       = [JStr (str ''Booking create failed'')]
   \<and> requests (step (Settle 0 (Resolved (BookingData (JObj [(str ''booking'', JObj [(str ''room_type'', JStr (str ''Suite''))])]))))
               (run (fill_form @ [ClickBookPay]) (opened Booking False)))
       = [GetPing, PostBooking (str ''guest@example.com'') (str ''guest@example.com'') (str ''Suite'')
                     (str ''2024-06-01'') (str ''2024-06-03'')]
   \<and> inflight (step (Settle 0 (Resolved (BookingData (JObj [(str ''booking'', JObj [(str ''room_type'', JStr (str ''Suite''))])]))))
               (run (fill_form @ [ClickBookPay]) (opened Booking False))) = []"
proof -
  let ?w = "run (fill_form @ [ClickBookPay]) (opened Booking False)"
  let ?d = "JObj [(str ''booking'', JObj [(str ''room_type'', JStr (str ''Suite''))])]"
  have h1: "pending_at ?w 0 (PendBooking (str ''guest@example.com''))"
    by (simp add: pending_at_def example_defs chatbot_defs str_def)
  have h2: "\<not> truthy (opt_get (opt_get ?d (str ''booking'')) (str ''id''))"
    by (simp add: str_def)
  have a: "alerts ?w = []"
    by (simp add: example_defs chatbot_defs str_def)
  have r: "requests ?w = [GetPing, PostBooking (str ''guest@example.com'') (str ''guest@example.com'')
             (str ''Suite'') (str ''2024-06-01'') (str ''2024-06-03'')]"
    by (simp add: example_defs chatbot_defs str_def)
  have i: "inflight ?w = [PendBooking (str ''guest@example.com'')]"
    by (simp add: example_defs chatbot_defs str_def)
  from booking_without_id_aborts [OF h1 h2] h1 h2 a r i show ?thesis
    by (simp add: drop_nth_def)
qed

lemma resume_roomType:
  assumes "resume p out w0 = Some w'" and "roomType (comp w0) \<in> set room_options"
  shows "roomType (comp w') \<in> set room_options"
  using assms
  by (cases "(p, out, w0)" rule: resume.cases)
     (auto simp add: chatbot_defs Let_def split: if_splits)

lemma step_roomType:
  assumes "roomType (comp w) \<in> set room_options"
  shows "roomType (comp (step ev w)) \<in> set room_options"
proof (cases ev)
  case (Settle i out)
  from settle_cases [of i out w] show ?thesis
  proof
    assume "settle i out w = w"
    with assms Settle show ?thesis by simp
  next
    assume "\<exists>w'. i < length (inflight w)
          \<and> resume (inflight w ! i) out (w\<lparr>inflight := drop_nth i (inflight w)\<rparr>) = Some w'
          \<and> settle i out w = w'"
    then obtain w' where
      r: "resume (inflight w ! i) out (w\<lparr>inflight := drop_nth i (inflight w)\<rparr>) = Some w'"
      and s: "settle i out w = w'" by blast
    from resume_roomType [OF r] assms have "roomType (comp w') \<in> set room_options" by simp
    with s Settle show ?thesis by simp
  qed
qed (use assms in \<open>auto simp add: chatbot_defs Let_def split: if_splits\<close>)

lemma run_roomType:
  "roomType (comp w) \<in> set room_options \<Longrightarrow> roomType (comp (run es w)) \<in> set room_options"
  by (induction es arbitrary: w) (simp_all add: step_roomType)

lemma Chatbot_roomType: "roomType (comp (Chatbot r)) \<in> set room_options"
  by (simp add: Chatbot_def initial_chatbot_def room_options_def)

lemma room_options_nonempty: "v \<in> set room_options \<Longrightarrow> v \<noteq> []"
  by (auto simp add: room_options_def str_def)

text \<open>
  Claim C2. In every run of the component, submitting the booking form with any of the
  four inputs (email, room type, check-in, check-out) empty issues no request: the
  handler only adds the alert \<open>Please fill all fields.\<close>, and the component's state and
  the suspended calls stay as they are. The handler tests the email and the two dates;
  the room type is never empty, since the select starts at Deluxe, is reset to Deluxe and
  takes no other value than its three options.
\<close>

theorem booking_submit_validation:
  assumes "w = run es (Chatbot r)"
    and "email (comp w) = [] \<or> roomType (comp w) = [] \<or> checkIn (comp w) = [] \<or> checkOut (comp w) = []"
  shows "handleBookingSubmit w = w\<lparr>alerts := alerts w @ [JStr (str ''Please fill all fields.'')]\<rparr>
       \<and> requests (step ClickBookPay w) = requests w
       \<and> inflight (step ClickBookPay w) = inflight w
       \<and> comp (step ClickBookPay w) = comp w
       \<and> roomType (comp w) \<in> set room_options"
proof -
  have o: "roomType (comp w) \<in> set room_options"
    unfolding assms(1) by (rule run_roomType) (rule Chatbot_roomType)
  then have "roomType (comp w) \<noteq> []" by (rule room_options_nonempty)
  with assms(2) have "email (comp w) = [] \<or> checkIn (comp w) = [] \<or> checkOut (comp w) = []"
    by simp
  then have "handleBookingSubmit w = w\<lparr>alerts := alerts w @ [JStr (str ''Please fill all fields.'')]\<rparr>"
    by (auto simp add: handleBookingSubmit_def)
  with o show ?thesis by simp
qed

theorem booking_submit_validation_witness:
  "email (comp (run dates_only (Chatbot False))) = []
   \<and> roomType (comp (run dates_only (Chatbot False))) = str ''Suite''
   \<and> shows_panel (Some Booking) (run dates_only (Chatbot False))
   \<and> isBookingLoading (comp (run dates_only (Chatbot False))) = False
   \<and> alerts (step ClickBookPay (run dates_only (Chatbot False))) = [JStr (str ''Please fill all fields.'')]
   \<and> requests (step ClickBookPay (run dates_only (Chatbot False))) = [GetPing]
   \<and> inflight (step ClickBookPay (run dates_only (Chatbot False))) = []"
proof -
  let ?w = "run dates_only (Chatbot False)"
  have c: "comp ?w = initial_chatbot\<lparr>cur_section := Some Booking, loading := False,
             roomType := str ''Suite'', checkIn := str ''2024-06-01'', checkOut := str ''2024-06-03''\<rparr>"
    by (simp add: example_defs chatbot_defs str_def)
  have e: "email (comp ?w) = []" by (simp add: c initial_chatbot_def)
  have h: "email (comp ?w) = [] \<or> roomType (comp ?w) = [] \<or> checkIn (comp ?w) = [] \<or> checkOut (comp ?w) = []"
    using e by simp
  have s: "shows_panel (Some Booking) ?w \<and> isBookingLoading (comp ?w) = False
           \<and> roomType (comp ?w) = str ''Suite''"
    by (simp add: c shows_panel_def initial_chatbot_def)
  have a: "alerts ?w = [] \<and> requests ?w = [GetPing] \<and> inflight ?w = []"
    by (simp add: example_defs chatbot_defs str_def)
  from booking_submit_validation [OF refl h] e s a show ?thesis by simp
qed


section \<open>The displayed amount\<close>

lemma digits_value_snoc: "digits_value (ds @ [c]) = 10 * digits_value ds + (c - 48)"
  by (simp add: digits_value_def)

lemma decimal_nonempty: "decimal n \<noteq> []"
  by (subst decimal.simps) simp

lemma decimal_digits: "list_all is_digit (decimal n)"
proof (induction n rule: decimal.induct)
  case (1 n)
  show ?case
  proof (cases "n < 10")
    case True
    then show ?thesis by (subst decimal.simps) (simp add: is_digit_def)
  next
    case False
    have "n mod 10 < 10" by simp
    then have "is_digit (48 + n mod 10)" by (simp add: is_digit_def)
    with False 1 show ?thesis by (subst decimal.simps) simp
  qed
qed

lemma digits_value_decimal: "digits_value (decimal n) = n"
proof (induction n rule: decimal.induct)
  case (1 n)
  show ?case
  proof (cases "n < 10")
    case True
    then show ?thesis by (subst decimal.simps) (simp add: digits_value_def)
  next
    case False
    with 1 have "digits_value (decimal (n div 10)) = n div 10" by simp
    with False show ?thesis by (subst decimal.simps) (simp add: digits_value_snoc)
  qed
qed

lemma decimal_leading: "hd (decimal n) = 48 \<Longrightarrow> decimal n = [48]"
proof (induction n rule: decimal.induct)
  case (1 n)
  show ?case
  proof (cases "n < 10")
    case True
    with 1(2) show ?thesis by (subst (asm) decimal.simps, subst decimal.simps) simp
  next
    case False
    have "hd (decimal n) = hd (decimal (n div 10))"
      using False decimal_nonempty [of "n div 10"] by (subst decimal.simps) simp
    with 1 False have "decimal (n div 10) = [48]" by simp
    then have "digits_value (decimal (n div 10)) = 0" by (simp add: digits_value_def)
    then have "n div 10 = 0" by (simp add: digits_value_decimal)
    with False show ?thesis by simp
  qed
qed

lemma two_digits: "(m mod 100) div 10 * 10 + m mod 10 = (m::nat) mod 100"
proof -
  have "m mod 10 = (m mod 100) mod 10" by (simp add: mod_mod_cancel)
  then show ?thesis using div_mult_mod_eq [of "m mod 100" 10] by simp
qed

lemma toFixed2_cents_reads:
  assumes "0 \<le> a" and "a < 2 ^ 52"
  shows "toFixed2_cents a
           = Some (decimal (nat a div 100) @ [46, 48 + (nat a mod 100) div 10, 48 + nat a mod 10])
       \<and> list_all is_digit (decimal (nat a div 100) @ [48 + (nat a mod 100) div 10, 48 + nat a mod 10])
       \<and> int (digits_value (decimal (nat a div 100)) * 100
              + digits_value [48 + (nat a mod 100) div 10, 48 + nat a mod 10]) = a"
proof -
  have t: "toFixed2_cents a
           = Some (decimal (nat a div 100) @ [46, 48 + (nat a mod 100) div 10, 48 + nat a mod 10])"
    using assms by (simp add: toFixed2_cents_def Let_def str_def)
  have "(nat a mod 100) div 10 < 10" and "nat a mod 10 < 10" by simp_all
  then have d: "is_digit (48 + (nat a mod 100) div 10) \<and> is_digit (48 + nat a mod 10)"
    by (simp add: is_digit_def)
  have "(nat a mod 100) div 10 * 10 + nat a mod 10 = nat a mod 100" by (rule two_digits)
  then have "digits_value [48 + (nat a mod 100) div 10, 48 + nat a mod 10] = nat a mod 100"
    by (simp add: digits_value_def)
  then have "digits_value (decimal (nat a div 100)) * 100
              + digits_value [48 + (nat a mod 100) div 10, 48 + nat a mod 10] = nat a"
    by (simp add: digits_value_decimal)
  with assms(1) have v: "int (digits_value (decimal (nat a div 100)) * 100
              + digits_value [48 + (nat a mod 100) div 10, 48 + nat a mod 10]) = a"
    by simp
  from t d v decimal_digits [of "nat a div 100"] show ?thesis by simp
qed

text \<open>
  Claim C8. When a create-order response arrives, the booking section and the Payment
  Page display the amount as the rupee sign, the amount of minor units divided by 100
  with two decimal places, a space and the currency code: the digits before the point
  are a decimal numeral without leading zero, and the numeral and the two decimals read
  together as the amount. For an order of amount 400000 in INR, as in the example
  scenario, the text is the rupee sign followed by \<open>4000.00 INR\<close>. (Amounts from 0 up
  to 2^52, the range in which the text is computed.)
\<close>

theorem amount_display:
  assumes "pending_at w i (PendCreateOrder em bid)" and "shows_panel (Some Booking) w"
    and "pending_at v j PayCreateOrder"
    and "0 \<le> ord_amount (order_of r)" and "ord_amount (order_of r) < 2 ^ 52"
  shows "(\<exists>ds d1 d2.
            shown_amount (step (Settle i (Resolved (OrderData r))) w)
              = Some (0x20B9 # ds @ [46, d1, d2, 32] @ ord_currency (order_of r))
          \<and> shown_order_amount (pstep (PSettle j (Resolved (OrderData r))) v)
              = Some (0x20B9 # ds @ [46, d1, d2, 32] @ ord_currency (order_of r))
          \<and> ds \<noteq> [] \<and> list_all is_digit (ds @ [d1, d2]) \<and> (hd ds = 48 \<longrightarrow> ds = [48])
          \<and> int (digits_value ds * 100 + digits_value [d1, d2]) = ord_amount (order_of r))
       \<and> (ord_amount (order_of r) = 400000 \<and> ord_currency (order_of r) = str ''INR'' \<longrightarrow>
            shown_amount (step (Settle i (Resolved (OrderData r))) w) = Some (0x20B9 # str ''4000.00 INR'')
            \<and> shown_order_amount (pstep (PSettle j (Resolved (OrderData r))) v)
                = Some (0x20B9 # str ''4000.00 INR''))"
proof -
  let ?a = "ord_amount (order_of r)"
  let ?ds = "decimal (nat ?a div 100)"
  let ?d1 = "48 + (nat ?a mod 100) div 10"
  let ?d2 = "48 + nat ?a mod 10"
  let ?w' = "step (Settle i (Resolved (OrderData r))) w"
  let ?v' = "pstep (PSettle j (Resolved (OrderData r))) v"
  note rd = toFixed2_cents_reads [OF assms(4,5)]
  have sw: "shown_summary ?w' = Some \<lparr>amount = ?a, currency = ord_currency (order_of r),
                                       orderId = ord_id (order_of r), status = None\<rparr>"
    using assms(1,2)
    by (simp add: settle_at shown_summary_def shows_panel_def handleBookingSubmit_ordered_def
          handleBookingSubmit_loaded_def handleBookingSubmit_open_def handleBookingSubmit_catch_def
          Let_def)
  have sv: "order (comp ?v') = Some (order_of r)"
    using assms(3) by (simp add: psettle_at createOrder_resolved_def)
  have aw: "shown_amount ?w' = amount_text ?a (ord_currency (order_of r))"
    using sw by (simp add: shown_amount_def)
  have av: "shown_order_amount ?v' = amount_text ?a (ord_currency (order_of r))"
    using sv by (simp add: shown_order_amount_def order_amount_text_def)
  have at: "amount_text ?a (ord_currency (order_of r))
              = Some (0x20B9 # ?ds @ [46, ?d1, ?d2, 32] @ ord_currency (order_of r))"
    using rd by (simp add: amount_text_def str_def)
  have 1: "\<exists>ds d1 d2.
            shown_amount ?w' = Some (0x20B9 # ds @ [46, d1, d2, 32] @ ord_currency (order_of r))
          \<and> shown_order_amount ?v' = Some (0x20B9 # ds @ [46, d1, d2, 32] @ ord_currency (order_of r))
          \<and> ds \<noteq> [] \<and> list_all is_digit (ds @ [d1, d2]) \<and> (hd ds = 48 \<longrightarrow> ds = [48])
          \<and> int (digits_value ds * 100 + digits_value [d1, d2]) = ?a"
  proof (intro exI conjI)
    show "shown_amount ?w' = Some (0x20B9 # ?ds @ [46, ?d1, ?d2, 32] @ ord_currency (order_of r))"
      by (simp only: aw at)
    show "shown_order_amount ?v' = Some (0x20B9 # ?ds @ [46, ?d1, ?d2, 32] @ ord_currency (order_of r))"
      by (simp only: av at)
    show "?ds \<noteq> []" by (rule decimal_nonempty)
    show "list_all is_digit (?ds @ [?d1, ?d2])" using rd by blast
    show "hd ?ds = 48 \<longrightarrow> ?ds = [48]" using decimal_leading by blast
    show "int (digits_value ?ds * 100 + digits_value [?d1, ?d2]) = ?a" using rd by blast
  qed
  have 2: "?a = 400000 \<and> ord_currency (order_of r) = str ''INR'' \<longrightarrow>
            shown_amount ?w' = Some (0x20B9 # str ''4000.00 INR'')
            \<and> shown_order_amount ?v' = Some (0x20B9 # str ''4000.00 INR'')"
  proof
    assume e: "?a = 400000 \<and> ord_currency (order_of r) = str ''INR''"
    then have "amount_text ?a (ord_currency (order_of r)) = Some (0x20B9 # str ''4000.00 INR'')"
      by (simp add: amount_text_def toFixed2_cents_def str_def decimal.simps)
    with aw av show "shown_amount ?w' = Some (0x20B9 # str ''4000.00 INR'')
            \<and> shown_order_amount ?v' = Some (0x20B9 # str ''4000.00 INR'')"
      by simp
  qed
  from 1 2 show ?thesis by blast
qed

theorem amount_display_witness:
  "pending_at (run order_requested (opened Booking True)) 0
      (PendCreateOrder (str ''guest@example.com'') (JStr (str ''abc-123'')))
   \<and> shows_panel (Some Booking) (run order_requested (opened Booking True))
   \<and> pending_at (prun page_creating (PaymentPage False)) 0 PayCreateOrder
   \<and> ord_amount (order_of example_order) = 400000
   \<and> ord_currency (order_of example_order) = str ''INR''
   \<and> run book_and_pay (opened Booking True)
       = step (Settle 0 (Resolved (OrderData example_order))) (run order_requested (opened Booking True))
   \<and> shown_amount (run book_and_pay (opened Booking True)) = Some (0x20B9 # str ''4000.00 INR'')
   \<and> shown_order_amount (pstep (PSettle 0 (Resolved (OrderData example_order)))
                            (prun page_creating (PaymentPage False)))
       = Some (0x20B9 # str ''4000.00 INR'')"
proof -
  let ?w = "run order_requested (opened Booking True)"
  let ?v = "prun page_creating (PaymentPage False)"
  have h1: "pending_at ?w 0 (PendCreateOrder (str ''guest@example.com'') (JStr (str ''abc-123'')))"
    by (simp add: pending_at_def example_defs chatbot_defs str_def)
  have h2: "shows_panel (Some Booking) ?w"
    by (simp add: example_defs chatbot_defs str_def)
  have h3: "pending_at ?v 0 PayCreateOrder"
    by (simp add: pending_at_def example_defs payment_defs trim_def is_js_whitespace_def str_def)
  have h4: "0 \<le> ord_amount (order_of example_order)"
    and h5: "ord_amount (order_of example_order) < 2 ^ 52"
    by (simp_all add: example_order_def)
  have e: "ord_amount (order_of example_order) = 400000
         \<and> ord_currency (order_of example_order) = str ''INR''"
    by (simp add: example_order_def)
  have b: "run book_and_pay (opened Booking True)
             = step (Settle 0 (Resolved (OrderData example_order))) ?w"
    by (simp add: book_and_pay_def order_requested_def booking_requested_def run_append)
  note t = amount_display [OF h1 h2 h3 h4 h5, THEN conjunct2, rule_format, OF e]
  from t h1 h2 h3 e b show ?thesis by simp
qed

section \<open>Re-entering the booking section\<close>

lemma resume_left_booking:
  assumes "resume p out w0 = Some w'" and "left_booking w0"
  shows "left_booking w'"
  using assms
  by (cases "(p, out, w0)" rule: resume.cases)
     (auto simp add: left_booking_def chatbot_defs Let_def split: if_splits)

lemma resume_left_cleared:
  assumes "resume p out w0 = Some w'" and "left_cleared w0" and "p \<noteq> PendAvailability"
  shows "left_cleared w'"
  using assms
  by (cases "(p, out, w0)" rule: resume.cases)
     (auto simp add: left_cleared_def left_booking_def chatbot_defs Let_def split: if_splits)

lemma left_booking_inflight [simp]: "left_booking (w\<lparr>inflight := xs\<rparr>) = left_booking w"
  by (simp add: left_booking_def)

lemma step_left_booking:
  assumes "left_booking w" and "ev \<noteq> Navigate Booking"
  shows "left_booking (step ev w)"
proof (cases ev)
  case (Settle i out)
  from settle_cases [of i out w] show ?thesis
  proof
    assume "settle i out w = w"
    with assms Settle show ?thesis by simp
  next
    assume "\<exists>w'. i < length (inflight w)
          \<and> resume (inflight w ! i) out (w\<lparr>inflight := drop_nth i (inflight w)\<rparr>) = Some w'
          \<and> settle i out w = w'"
    then obtain w' where
      r: "resume (inflight w ! i) out (w\<lparr>inflight := drop_nth i (inflight w)\<rparr>) = Some w'"
      and s: "settle i out w = w'" by blast
    from resume_left_booking [OF r] assms have "left_booking w'" by simp
    with s Settle show ?thesis by simp
  qed
qed (use assms in \<open>auto simp add: left_booking_def chatbot_defs Let_def split: if_splits\<close>)

lemma step_left_cleared:
  assumes "left_cleared w" and "ev \<noteq> Navigate Booking"
  shows "left_cleared (step ev w)"
proof (cases ev)
  case (Settle i out)
  from settle_cases [of i out w] show ?thesis
  proof
    assume "settle i out w = w"
    with assms Settle show ?thesis by simp
  next
    assume "\<exists>w'. i < length (inflight w)
          \<and> resume (inflight w ! i) out (w\<lparr>inflight := drop_nth i (inflight w)\<rparr>) = Some w'
          \<and> settle i out w = w'"
    then obtain w' where i: "i < length (inflight w)"
      and r: "resume (inflight w ! i) out (w\<lparr>inflight := drop_nth i (inflight w)\<rparr>) = Some w'"
      and s: "settle i out w = w'" by blast
    from i have "inflight w ! i \<in> set (inflight w)" by (rule nth_mem)
    with assms(1) have p: "inflight w ! i \<noteq> PendAvailability"
      by (auto simp add: left_cleared_def)
    have "left_cleared (w\<lparr>inflight := drop_nth i (inflight w)\<rparr>)"
      using assms(1) set_drop_nth [of i "inflight w"] by (auto simp add: left_cleared_def)
    from resume_left_cleared [OF r this p] s Settle show ?thesis by simp
  qed
qed (use assms in \<open>auto simp add: left_cleared_def left_booking_def chatbot_defs Let_def split: if_splits\<close>)

lemma run_left_booking:
  "left_booking w \<Longrightarrow> Navigate Booking \<notin> set es \<Longrightarrow> left_booking (run es w)"
  by (induction es arbitrary: w) (auto simp add: step_left_booking)

lemma run_left_cleared:
  "left_cleared w \<Longrightarrow> Navigate Booking \<notin> set es \<Longrightarrow> left_cleared (run es w)"
  by (induction es arbitrary: w) (auto simp add: step_left_cleared)

text \<open>
  Claim C9, as the spec states it, fails when an availability query is still in flight
  at the time the guest goes back: going back does not cancel the query, its answer
  arrives at the main menu, and the booking section opened again shows the counts, with
  the dates empty.
\<close>

theorem availability_after_leaving:
  "bookingSuccess (comp (run paid_then_query (opened Booking True))) = payment_successful
   \<and> inflight (run paid_then_query (opened Booking True)) = [PendAvailability]
   \<and> shows_panel (Some Booking) (run query_answered_at_menu (opened Booking True))
   \<and> checkIn (comp (run query_answered_at_menu (opened Booking True))) = []
   \<and> checkOut (comp (run query_answered_at_menu (opened Booking True))) = []
   \<and> shown_availability (run query_answered_at_menu (opened Booking True))
       = Some \<lparr>Deluxe = 3, Suite = 1, Standard = 0\<rparr>"
  by (simp add: example_defs chatbot_defs
        shown_availability_def str_def)

text \<open>
  Claim C9, amended. From the booking section, in whatever state a completed payment and
  later input have left it, going back and opening the booking section again, with
  whatever happens in between outside the booking section, shows the email empty, the
  room type Deluxe and both dates empty; the availability list is cleared provided no
  availability query is in flight when the guest goes back. Opening the booking section
  right after going back always shows the availability list cleared.
\<close>

theorem reenter_booking_defaults:
  assumes "shows_panel (Some Booking) w" and "Navigate Booking \<notin> set es"
  shows "email (comp (step (Navigate Booking) (run es (step GoHome w)))) = []
       \<and> roomType (comp (step (Navigate Booking) (run es (step GoHome w)))) = str ''Deluxe''
       \<and> checkIn (comp (step (Navigate Booking) (run es (step GoHome w)))) = []
       \<and> checkOut (comp (step (Navigate Booking) (run es (step GoHome w)))) = []
       \<and> (PendAvailability \<notin> set (inflight w) \<longrightarrow>
            availability (comp (step (Navigate Booking) (run es (step GoHome w)))) = None
            \<and> shown_availability (step (Navigate Booking) (run es (step GoHome w))) = None)
       \<and> shows_panel (Some Booking) (step (Navigate Booking) (step GoHome w))
       \<and> availability (comp (step (Navigate Booking) (step GoHome w))) = None
       \<and> shown_availability (step (Navigate Booking) (step GoHome w)) = None"
proof -
  let ?g = "step GoHome w"
  have g: "left_booking ?g"
    using assms(1) by (simp add: left_booking_def shows_panel_def goHome_def)
  then have "left_booking (run es ?g)"
    using assms(2) by (rule run_left_booking)
  then have 1: "email (comp (step (Navigate Booking) (run es ?g))) = []
       \<and> roomType (comp (step (Navigate Booking) (run es ?g))) = str ''Deluxe''
       \<and> checkIn (comp (step (Navigate Booking) (run es ?g))) = []
       \<and> checkOut (comp (step (Navigate Booking) (run es ?g))) = []"
    by (simp add: left_booking_def)
  have 2: "PendAvailability \<notin> set (inflight w) \<longrightarrow>
            availability (comp (step (Navigate Booking) (run es ?g))) = None
            \<and> shown_availability (step (Navigate Booking) (run es ?g)) = None"
  proof
    assume "PendAvailability \<notin> set (inflight w)"
    with g assms(1) have "left_cleared ?g"
      by (simp add: left_cleared_def shows_panel_def goHome_def)
    then have "left_cleared (run es ?g)"
      using assms(2) by (rule run_left_cleared)
    then show "availability (comp (step (Navigate Booking) (run es ?g))) = None
            \<and> shown_availability (step (Navigate Booking) (run es ?g)) = None"
      by (simp add: left_cleared_def shown_availability_def)
  qed
  have 3: "shows_panel (Some Booking) (step (Navigate Booking) ?g)
       \<and> availability (comp (step (Navigate Booking) ?g)) = None
       \<and> shown_availability (step (Navigate Booking) ?g) = None"
    using assms(1) by (simp add: shows_panel_def goHome_def shown_availability_def)
  from 1 2 3 show ?thesis by simp
qed

theorem reenter_booking_defaults_witness:
  "shows_panel (Some Booking) (run after_payment (opened Booking True))
   \<and> Navigate Booking \<notin> set wandering
   \<and> PendAvailability \<notin> set (inflight (run after_payment (opened Booking True)))
   \<and> map_option chip_text (shown_summary (run after_payment (opened Booking True))) = Some (str ''Paid'')
   \<and> email (comp (run after_payment (opened Booking True))) = str ''guest@example.com''
   \<and> shown_availability (run after_payment (opened Booking True)) = Some \<lparr>Deluxe = 3, Suite = 1, Standard = 0\<rparr>
   \<and> email (comp (step (Navigate Booking) (run wandering (step GoHome (run after_payment (opened Booking True)))))) = []
   \<and> roomType (comp (step (Navigate Booking) (run wandering (step GoHome (run after_payment (opened Booking True)))))) = str ''Deluxe''
   \<and> checkIn (comp (step (Navigate Booking) (run wandering (step GoHome (run after_payment (opened Booking True)))))) = []
   \<and> checkOut (comp (step (Navigate Booking) (run wandering (step GoHome (run after_payment (opened Booking True)))))) = []
   \<and> shown_availability (step (Navigate Booking) (run wandering (step GoHome (run after_payment (opened Booking True))))) = None
   \<and> shows_panel (Some Booking) (step (Navigate Booking) (step GoHome (run after_payment (opened Booking True))))"
proof -
  let ?w = "run after_payment (opened Booking True)"
  have c: "comp ?w = initial_chatbot
      \<lparr>cur_section := Some Booking, loading := False, email := str ''guest@example.com'',
       roomType := str ''Standard'', checkIn := str ''2024-07-01'', checkOut := str ''2024-07-02'',
       availability := Some \<lparr>Deluxe = 3, Suite = 1, Standard = 0\<rparr>,
       bookingSuccess := payment_successful,
       paySummary := Some \<lparr>amount = 400000, currency = str ''INR'', orderId = str ''order_1'',
                            status = Some (str ''paid'')\<rparr>\<rparr>"
    by (simp add: example_defs chatbot_defs str_def)
  have h: "shows_panel (Some Booking) ?w"
    by (simp add: c shows_panel_def initial_chatbot_def)
  have n: "Navigate Booking \<notin> set wandering"
    by (simp add: wandering_def)
  have i: "PendAvailability \<notin> set (inflight ?w)"
    by (simp add: example_defs chatbot_defs str_def)
  have p: "map_option chip_text (shown_summary ?w) = Some (str ''Paid'')"
    by (simp add: c h shown_summary_def chip_text_def)
  have e: "email (comp ?w) = str ''guest@example.com''
         \<and> shown_availability ?w = Some \<lparr>Deluxe = 3, Suite = 1, Standard = 0\<rparr>"
    by (simp add: c h shown_availability_def)
  from reenter_booking_defaults [OF h n] h n i p e show ?thesis by simp
qed



section \<open>Order and booking id on the Payment Page\<close>

text \<open>
  In the booking section the checkout is opened with the order of the create-order
  response and with the booking id that the create-order request was issued for: both
  live in the closure of one run of \<open>handleBookingSubmit\<close>.
\<close>

lemma length_drop_nth: "i < length xs \<Longrightarrow> length (drop_nth i xs) = length xs - 1"
  by (simp add: drop_nth_def)

lemma handleBookingSubmit_pairs_order:
  assumes "pending_at w i (PendBooking em)"
    and "truthy (opt_get (opt_get d (str ''booking'')) (str ''id''))"
    and "window_Razorpay w"
  shows "requests (step (Settle i (Resolved (BookingData d))) w)
           = requests w @ [PostCreateOrder (opt_get (opt_get d (str ''booking'')) (str ''id''))]
       \<and> map (\<lambda>c. (order_id c, notes_booking_id c))
             (checkouts (step (Settle (length (inflight w) - 1) (Resolved (OrderData r)))
                          (step (Settle i (Resolved (BookingData d))) w)))
           = map (\<lambda>c. (order_id c, notes_booking_id c)) (checkouts w)
             @ [(ord_id (order_of r), opt_get (opt_get d (str ''booking'')) (str ''id''))]"
proof -
  let ?bid = "opt_get (opt_get d (str ''booking'')) (str ''id'')"
  let ?w1 = "settle i (Resolved (BookingData d)) w"
  have w1: "?w1 = w\<lparr>requests := requests w @ [PostCreateOrder ?bid],
                     inflight := drop_nth i (inflight w) @ [PendCreateOrder em ?bid]\<rparr>"
    using assms(1,2) by (simp add: settle_at handleBookingSubmit_booked_def Let_def)
  have "length (drop_nth i (inflight w)) = length (inflight w) - 1"
    using assms(1) by (simp add: pending_at_def length_drop_nth)
  then have p: "pending_at ?w1 (length (inflight w) - 1) (PendCreateOrder em ?bid)"
    unfolding w1 by (simp add: pending_at_def nth_append)
  have "checkouts (settle (length (inflight w) - 1) (Resolved (OrderData r)) ?w1)
          = checkouts ?w1
            @ [\<lparr>key = key_id r, order_id = ord_id (order_of r), name = str ''The Grand Palace Hotel'',
                description = str ''Room booking for '' @ em,
                prefill_name = em, prefill_email = em, notes_booking_id = ?bid,
                theme_color = None\<rparr>]"
    using assms(3) unfolding settle_at [OF p]
    by (simp add: w1 handleBookingSubmit_ordered_def handleBookingSubmit_loaded_def
          handleBookingSubmit_open_def Let_def)
  then show ?thesis by (simp add: w1)
qed

text \<open>
  Claim C5 asks that the checkout always carries the order together with the booking id
  it was created for. On the Payment Page an order is created for booking \<open>A\<close>, the
  booking id field is then changed to \<open>B\<close>, and Pay Now opens the checkout with the order
  of \<open>A\<close> and the note \<open>booking_id = B\<close>: the order is kept when the field changes, and
  the note is read from the field.
\<close>

theorem stale_order_checkout:
  "requests (prun (order_for (str ''A'') @ [TypeBookingId (str ''B''), ClickPayNow]) (PaymentPage False))
     = [PostCreateOrder (JStr (str ''A''))]
   \<and> map order_id (checkouts (prun (order_for (str ''A'') @ [TypeBookingId (str ''B''), ClickPayNow]) (PaymentPage False)))
     = [str ''order_1'']
   \<and> map notes_booking_id (checkouts (prun (order_for (str ''A'') @ [TypeBookingId (str ''B''), ClickPayNow]) (PaymentPage False)))
     = [JStr (str ''B'')]"
  by (simp add: example_defs payment_defs trim_def is_js_whitespace_def str_def)

section \<open>Availability\<close>

text \<open>
  Claim C6, as the spec states it, asks that an older query never overwrites the result
  of a newer one. Going back re-enables the button while the first query is in flight;
  the second query is answered first and its counts are shown, then the answer of the
  first query arrives and replaces them.
\<close>

theorem stale_availability_overwrites:
  "requests (run overlapping_queries (opened Booking False))
     = [GetPing, GetAvailability (str ''2024-06-01'') (str ''2024-06-03''),
        GetAvailability (str ''2024-07-01'') (str ''2024-07-02'')]
   \<and> inflight (run overlapping_queries (opened Booking False)) = [PendAvailability]
   \<and> shown_availability (run overlapping_queries (opened Booking False))
     = Some \<lparr>Deluxe = 5, Suite = 2, Standard = 7\<rparr>
   \<and> shown_availability (step (Settle 0 (Resolved (AvailData \<lparr>Deluxe = 0, Suite = 0, Standard = 1\<rparr>)))
        (run overlapping_queries (opened Booking False)))
     = Some \<lparr>Deluxe = 0, Suite = 0, Standard = 1\<rparr>"
  by (simp add: example_defs chatbot_defs shown_availability_def str_def)

text \<open>
  Claim C6, amended. The availability state holds the counts of the successful response
  that arrived last: every successful response of an availability query replaces the
  counts with its own, whichever query it answers, and a failed one leaves them as they
  are. While the loading flag of the query is set, the button starts no further query.
\<close>

theorem availability_last_response_wins:
  assumes "pending_at w i PendAvailability"
  shows "availability (comp (step (Settle i (Resolved (AvailData d))) w)) = Some d
       \<and> availability (comp (step (Settle i (Rejected e)) w)) = availability (comp w)
       \<and> (isCheckingLoading (comp w) \<longrightarrow> step ClickCheckAvailability w = w)"
  using assms
  by (simp add: pending_at_def settle_def checkRoomAvailability_resolved_def
        checkRoomAvailability_rejected_def)

theorem availability_last_response_wins_witness:
  "pending_at (run check_query (opened Booking False)) 0 PendAvailability
   \<and> isCheckingLoading (comp (run check_query (opened Booking False)))
   \<and> availability (comp (step (Settle 0 (Resolved (AvailData \<lparr>Deluxe = 5, Suite = 2, Standard = 7\<rparr>)))
        (run check_query (opened Booking False)))) = Some \<lparr>Deluxe = 5, Suite = 2, Standard = 7\<rparr>
   \<and> availability (comp (step (Settle 0 (Rejected server_error)) (run check_query (opened Booking False)))) = None
   \<and> requests (step ClickCheckAvailability (run check_query (opened Booking False)))
       = [GetPing, GetAvailability (str ''2024-06-01'') (str ''2024-06-03'')]"
proof -
  let ?w = "run check_query (opened Booking False)"
  have h: "pending_at ?w 0 PendAvailability"
    by (simp add: pending_at_def example_defs chatbot_defs str_def)
  have l: "isCheckingLoading (comp ?w) \<and> availability (comp ?w) = None"
    by (simp add: example_defs chatbot_defs str_def)
  have r: "requests ?w = [GetPing, GetAvailability (str ''2024-06-01'') (str ''2024-06-03'')]"
    by (simp add: example_defs chatbot_defs str_def)
  from availability_last_response_wins [OF h, of "\<lparr>Deluxe = 5, Suite = 2, Standard = 7\<rparr>" server_error]
    h l r show ?thesis by simp
qed

section \<open>Payment verification\<close>

lemma chip_pending_iff:
  "chip_pending w \<longleftrightarrow> (\<forall>ps. paySummary (comp w) = Some ps \<longrightarrow> status ps \<noteq> Some (str ''paid''))"
  by (simp add: chip_pending_def chip_text_def chip_class_def str_def split: option.split)

lemma resume_chip_pending:
  assumes "resume p out w0 = Some w'" and "chip_pending w0"
    and "\<not> (p = PendVerify \<and> (\<exists>d. out = Resolved d))"
  shows "chip_pending w'"
  using assms
  by (cases "(p, out, w0)" rule: resume.cases)
     (auto simp add: chip_pending_iff chatbot_defs Let_def split: if_splits)

lemma chip_pending_inflight [simp]: "chip_pending (w\<lparr>inflight := xs\<rparr>) = chip_pending w"
  by (simp add: chip_pending_def)

lemma step_chip_pending:
  assumes "chip_pending w" and "\<not> verify_succeeds e w"
  shows "chip_pending (step e w)"
proof (cases e)
  case (Settle i out)
  show ?thesis
  proof (cases "i < length (inflight w)")
    case False
    then show ?thesis using assms Settle by (simp add: settle_def)
  next
    case True
    show ?thesis
    proof (cases "resume (inflight w ! i) out (w\<lparr>inflight := drop_nth i (inflight w)\<rparr>)")
      case None
      then show ?thesis using assms True Settle by (simp add: settle_def)
    next
      case (Some w')
      have "\<not> (inflight w ! i = PendVerify \<and> (\<exists>d. out = Resolved d))"
        using assms(2) True Settle by (auto simp add: pending_at_def)
      with Some assms(1) have "chip_pending w'"
        using resume_chip_pending [of "inflight w ! i" out "w\<lparr>inflight := drop_nth i (inflight w)\<rparr>" w']
        by simp
      then show ?thesis using Some True Settle by (simp add: settle_def)
    qed
  qed
qed (use assms in \<open>auto simp add: chip_pending_iff chatbot_defs Let_def\<close>)

lemma run_chip_pending:
  "chip_pending w \<Longrightarrow> \<not> verified_in es w \<Longrightarrow> chip_pending (run es w)"
proof (induction es arbitrary: w)
  case Nil
  then show ?case by simp
next
  case (Cons e es)
  then show ?case by (simp add: step_chip_pending)
qed

lemma Chatbot_chip_pending: "chip_pending (Chatbot r)"
  by (simp add: chip_pending_def Chatbot_def initial_chatbot_def)


text \<open>
  Claim C1, as the spec states it, fails in two places. On the Payment Page a successful
  verify call leaves the displayed status at \<open>created\<close>, where it was before the call:
  the page only raises an alert. In the booking section a failed verify call raises no
  alert: the rejection leaves the handler uncaught.
\<close>

theorem verify_status_counterexample:
  "map_option status_text (order (comp (prun (page_paying @ [PSettle 0 (Resolved NoData)]) (PaymentPage False))))
     = Some (str ''created'')
   \<and> alerts (prun (page_paying @ [PSettle 0 (Resolved NoData)]) (PaymentPage False))
     = [JStr (str ''Order created: order_1''), JStr payment_verified]
   \<and> map_option status_text (order (comp (prun page_paying (PaymentPage False)))) = Some (str ''created'')
   \<and> inflight (run paying (opened Booking True)) = [PendVerify]
   \<and> alerts (run (paying @ [Settle 0 (Rejected server_error)]) (opened Booking True)) = []
   \<and> unhandled (run (paying @ [Settle 0 (Rejected server_error)]) (opened Booking True)) = [server_error]"
  by (simp add: example_defs chatbot_defs payment_defs status_text_def
        trim_def is_js_whitespace_def str_def)

text \<open>
  Claim C1, amended. In the booking section, a successful verify call sets the status of
  the payment summary to \<open>paid\<close> and sets the confirmation banner, so a summary that is
  shown then has the chip \<open>Paid\<close>; in every run without a successful verify call the chip
  of the summary is \<open>Payment Pending\<close>; a failed verify call leaves the component's state
  as it is, issues no request and leaves no call of its own suspended. On the Payment
  Page a successful verify call raises the confirmation alert, a failed one raises an
  alert with the server's detail or else a generic message, neither changes the page's
  state (the order box keeps the status of the order, or \<open>created\<close>), and a failed one
  issues no request and leaves no call of its own suspended.
\<close>

theorem verify_step_behaviour:
  assumes "pending_at w i PendVerify" and "pending_at v j PayVerify"
  shows "paySummary (comp (step (Settle i (Resolved d)) w))
           = map_option (\<lambda>prev. prev\<lparr>status := Some (str ''paid'')\<rparr>) (paySummary (comp w))
       \<and> bookingSuccess (comp (step (Settle i (Resolved d)) w)) = payment_successful
       \<and> (\<forall>ps. shown_summary (step (Settle i (Resolved d)) w) = Some ps
              \<longrightarrow> status ps = Some (str ''paid'') \<and> chip_text ps = str ''Paid''
                  \<and> chip_class ps = str ''chip--paid'')
       \<and> (\<not> verified_in es (Chatbot r) \<longrightarrow> chip_pending (run es (Chatbot r)))
       \<and> comp (step (Settle i (Rejected e)) w) = comp w
       \<and> requests (step (Settle i (Rejected e)) w) = requests w
       \<and> inflight (step (Settle i (Rejected e)) w) = drop_nth i (inflight w)
       \<and> alerts (pstep (PSettle j (Resolved d)) v) = alerts v @ [JStr payment_verified]
       \<and> comp (pstep (PSettle j (Resolved d)) v) = comp v
       \<and> alerts (pstep (PSettle j (Rejected e)) v)
           = alerts v @ [js_or (detail_of e) (JStr (str ''Verification failed. See server logs for details.''))]
       \<and> comp (pstep (PSettle j (Rejected e)) v) = comp v
       \<and> requests (pstep (PSettle j (Rejected e)) v) = requests v
       \<and> inflight (pstep (PSettle j (Rejected e)) v) = drop_nth j (inflight v)"
proof -
  have s: "settle i (Resolved d) w = payment_handler_resolved (w\<lparr>inflight := drop_nth i (inflight w)\<rparr>)"
    using assms(1) by (simp add: pending_at_def settle_def)
  have f: "settle i (Rejected e) w = payment_handler_rejected e (w\<lparr>inflight := drop_nth i (inflight w)\<rparr>)"
    using assms(1) by (simp add: pending_at_def settle_def)
  have ps: "psettle j (Resolved d) v = pay_handler_resolved (v\<lparr>inflight := drop_nth j (inflight v)\<rparr>)"
    using assms(2) by (simp add: pending_at_def psettle_def)
  have pf: "psettle j (Rejected e) v = pay_handler_rejected e (v\<lparr>inflight := drop_nth j (inflight v)\<rparr>)"
    using assms(2) by (simp add: pending_at_def psettle_def)
  have 1: "paySummary (comp (step (Settle i (Resolved d)) w))
           = map_option (\<lambda>prev. prev\<lparr>status := Some (str ''paid'')\<rparr>) (paySummary (comp w))"
    by (simp add: s payment_handler_resolved_def split: option.split)
  have 2: "bookingSuccess (comp (step (Settle i (Resolved d)) w)) = payment_successful"
    by (simp add: s payment_handler_resolved_def)
  have 3: "\<forall>ps. shown_summary (step (Settle i (Resolved d)) w) = Some ps
              \<longrightarrow> status ps = Some (str ''paid'') \<and> chip_text ps = str ''Paid''
                  \<and> chip_class ps = str ''chip--paid''"
    using 1 by (auto simp add: shown_summary_def chip_text_def chip_class_def split: if_splits)
  have 4: "\<not> verified_in es (Chatbot r) \<longrightarrow> chip_pending (run es (Chatbot r))"
    by (simp add: run_chip_pending Chatbot_chip_pending)
  have 5: "comp (step (Settle i (Rejected e)) w) = comp w
       \<and> requests (step (Settle i (Rejected e)) w) = requests w
       \<and> inflight (step (Settle i (Rejected e)) w) = drop_nth i (inflight w)"
    by (simp add: f payment_handler_rejected_def)
  have 6: "alerts (pstep (PSettle j (Resolved d)) v) = alerts v @ [JStr payment_verified]
       \<and> comp (pstep (PSettle j (Resolved d)) v) = comp v"
    by (simp add: ps pay_handler_resolved_def)
  have 7: "alerts (pstep (PSettle j (Rejected e)) v)
           = alerts v @ [js_or (detail_of e) (JStr (str ''Verification failed. See server logs for details.''))]
       \<and> comp (pstep (PSettle j (Rejected e)) v) = comp v
       \<and> requests (pstep (PSettle j (Rejected e)) v) = requests v
       \<and> inflight (pstep (PSettle j (Rejected e)) v) = drop_nth j (inflight v)"
    by (simp add: pf pay_handler_rejected_def)
  from 1 2 3 4 5 6 7 show ?thesis by simp
qed

theorem verify_step_behaviour_witness:
  "pending_at (run paying (opened Booking True)) 0 PendVerify
   \<and> pending_at (prun page_paying (PaymentPage False)) 0 PayVerify
   \<and> \<not> verified_in ([Settle 0 (Resolved NoData), Navigate Booking] @ paying) (Chatbot True)
   \<and> map_option chip_text (shown_summary (run paying (opened Booking True))) = Some (str ''Payment Pending'')
   \<and> map_option chip_text (shown_summary (step (Settle 0 (Resolved NoData)) (run paying (opened Booking True))))
       = Some (str ''Paid'')
   \<and> bookingSuccess (comp (step (Settle 0 (Resolved NoData)) (run paying (opened Booking True))))
       = payment_successful
   \<and> map_option chip_text (shown_summary (step (Settle 0 (Rejected server_error)) (run paying (opened Booking True))))
       = Some (str ''Payment Pending'')
   \<and> requests (step (Settle 0 (Rejected server_error)) (run paying (opened Booking True)))
       = requests (run paying (opened Booking True))
   \<and> inflight (step (Settle 0 (Rejected server_error)) (run paying (opened Booking True))) = []
   \<and> alerts (pstep (PSettle 0 (Rejected server_error)) (prun page_paying (PaymentPage False)))
       = [JStr (str ''Order created: order_1''), JStr (str ''Invalid signature'')]
   \<and> inflight (pstep (PSettle 0 (Rejected server_error)) (prun page_paying (PaymentPage False))) = []"
proof -
  let ?w = "run paying (opened Booking True)"
  let ?v = "prun page_paying (PaymentPage False)"
  let ?es = "[Settle 0 (Resolved NoData), Navigate Booking] @ paying"
  have w: "?w = run ?es (Chatbot True)"
    by (simp add: opened_def)
  have h1: "pending_at ?w 0 PendVerify"
    by (simp add: pending_at_def example_defs chatbot_defs str_def)
  have h2: "pending_at ?v 0 PayVerify"
    by (simp add: pending_at_def example_defs payment_defs trim_def
          is_js_whitespace_def str_def)
  have h3: "\<not> verified_in ?es (Chatbot True)"
    by (simp add: pending_at_def example_defs chatbot_defs str_def)
  have sh: "shows_panel (Some Booking) ?w"
    by (simp add: example_defs chatbot_defs str_def)
  have ps: "paySummary (comp ?w) = Some \<lparr>amount = 400000, currency = str ''INR'',
              orderId = str ''order_1'', status = None\<rparr>"
    by (simp add: example_defs chatbot_defs str_def)
  have iw: "inflight ?w = [PendVerify]"
    by (simp add: example_defs chatbot_defs str_def)
  have av: "alerts ?v = [JStr (str ''Order created: order_1'')] \<and> inflight ?v = [PayVerify]"
    by (simp add: example_defs payment_defs trim_def is_js_whitespace_def str_def)
  have d: "js_or (detail_of server_error) (JStr (str ''Verification failed. See server logs for details.''))
             = JStr (str ''Invalid signature'')"
    by (simp add: server_error_def js_defs)
  note t = verify_step_behaviour [OF h1 h2, of NoData ?es True server_error]
  have a: "shows_panel (Some Booking) (step (Settle 0 (Resolved NoData)) ?w)"
    using h1 sh by (simp add: pending_at_def settle_def payment_handler_resolved_def shows_panel_def)
  have b: "shows_panel (Some Booking) (step (Settle 0 (Rejected server_error)) ?w)"
    using t sh by (simp add: shows_panel_def)
  from t h1 h2 h3 sh ps iw av d a b show ?thesis
    by (simp add: shown_summary_def chip_text_def drop_nth_def str_def)
qed

section \<open>Errors of the backend calls\<close>

text \<open>
  Claim C4, as the spec states it, fails for the chat and for the availability query.
  A rejected chat call is only logged to the console: no alert is raised. A rejected
  availability query raises the fixed alert \<open>Failed to fetch availability.\<close>, also when
  the rejection carries a detail message of the server.
\<close>

theorem network_error_not_alerted:
  "inflight (run chatting (opened Faq False)) = [PendChat]
   \<and> alerts (step (Settle 0 (Rejected server_error)) (run chatting (opened Faq False))) = []
   \<and> console (step (Settle 0 (Rejected server_error)) (run chatting (opened Faq False))) = [server_error]
   \<and> inflight (run check_query (opened Booking False)) = [PendAvailability]
   \<and> detail_of server_error = JStr (str ''Invalid signature'')
   \<and> alerts (step (Settle 0 (Rejected server_error)) (run check_query (opened Booking False)))
       = [JStr (str ''Failed to fetch availability.'')]"
  by (simp add: example_defs chatbot_defs trim_def is_js_whitespace_def js_defs)

text \<open>
  Claim C4, amended. A rejected call of the book-and-pay flow (booking create, order
  create) is caught in the flow and raises an alert with the server's detail message when
  there is one, else with the error's message, else with \<open>Booking/payment failed.\<close>; a
  failed load of the checkout script raises \<open>Failed to load Razorpay\<close>. A rejected
  create-order call of the Payment Page raises an alert with the server's detail message
  when there is one, else with a generic message. A rejected availability query raises
  the fixed alert \<open>Failed to fetch availability.\<close>. A rejected chat call raises no alert
  and is logged to the console; the chat has no loading flag. The loading flag of the
  room-service request, of the availability query, of the book-and-pay flow and of the
  page's order creation is reset when the call fails and when it succeeds.
\<close>

theorem network_error_handling:
  "(pending_at w i (PendBooking em) \<or> pending_at w i (PendCreateOrder em bid) \<longrightarrow>
      alerts (step (Settle i (Rejected e)) w)
        = alerts w @ [js_or (js_or (detail_of e) (opt_get e (str ''message'')))
                            (JStr (str ''Booking/payment failed.''))]
      \<and> (truthy (detail_of e) \<longrightarrow> alerts (step (Settle i (Rejected e)) w) = alerts w @ [detail_of e])
      \<and> \<not> isBookingLoading (comp (step (Settle i (Rejected e)) w)))
   \<and> (pending_at w i (PendLoadRazorpay em bid k ord) \<longrightarrow>
      alerts (step (Settle i (Rejected e)) w) = alerts w @ [JStr (str ''Failed to load Razorpay'')]
      \<and> \<not> isBookingLoading (comp (step (Settle i (Rejected e)) w))
      \<and> \<not> isBookingLoading (comp (step (Settle i (Resolved (SdkPresent b))) w)))
   \<and> (pending_at w i (PendCreateOrder em bid) \<and> window_Razorpay w \<longrightarrow>
      \<not> isBookingLoading (comp (step (Settle i (Resolved (OrderData r))) w)))
   \<and> (pending_at w i PendAvailability \<longrightarrow>
      alerts (step (Settle i (Rejected e)) w) = alerts w @ [JStr (str ''Failed to fetch availability.'')]
      \<and> \<not> isCheckingLoading (comp (step (Settle i (Rejected e)) w))
      \<and> \<not> isCheckingLoading (comp (step (Settle i (Resolved (AvailData a))) w)))
   \<and> (pending_at w i PendRequest \<longrightarrow>
      \<not> isRequestLoading (comp (step (Settle i (Rejected e)) w))
      \<and> \<not> isRequestLoading (comp (step (Settle i (Resolved d)) w)))
   \<and> (pending_at w i PendChat \<longrightarrow>
      alerts (step (Settle i (Rejected e)) w) = alerts w
      \<and> console (step (Settle i (Rejected e)) w) = console w @ [e])
   \<and> (pending_at v j PayCreateOrder \<longrightarrow>
      alerts (pstep (PSettle j (Rejected e)) v)
        = alerts v @ [js_or (detail_of e) (JStr (str ''Failed to create order. Check backend logs.''))]
      \<and> (truthy (detail_of e) \<longrightarrow> alerts (pstep (PSettle j (Rejected e)) v) = alerts v @ [detail_of e])
      \<and> \<not> creating (comp (pstep (PSettle j (Rejected e)) v))
      \<and> \<not> creating (comp (pstep (PSettle j (Resolved (OrderData r))) v)))"
proof -
  have m: "str ''Failed to load Razorpay'' \<noteq> []" by (simp add: str_def)
  have 1: "pending_at w i (PendBooking em) \<or> pending_at w i (PendCreateOrder em bid) \<longrightarrow>
      alerts (step (Settle i (Rejected e)) w)
        = alerts w @ [js_or (js_or (detail_of e) (opt_get e (str ''message'')))
                            (JStr (str ''Booking/payment failed.''))]
      \<and> (truthy (detail_of e) \<longrightarrow> alerts (step (Settle i (Rejected e)) w) = alerts w @ [detail_of e])
      \<and> \<not> isBookingLoading (comp (step (Settle i (Rejected e)) w))"
    by (auto simp add: settle_at handleBookingSubmit_catch_def js_or_def)
  have 2: "pending_at w i (PendLoadRazorpay em bid k ord) \<longrightarrow>
      alerts (step (Settle i (Rejected e)) w) = alerts w @ [JStr (str ''Failed to load Razorpay'')]
      \<and> \<not> isBookingLoading (comp (step (Settle i (Rejected e)) w))
      \<and> \<not> isBookingLoading (comp (step (Settle i (Resolved (SdkPresent b))) w))"
    by (auto simp add: settle_at handleBookingSubmit_catch_def handleBookingSubmit_loaded_def
          handleBookingSubmit_open_def catch_alert_Error [OF m])
  have 3: "pending_at w i (PendCreateOrder em bid) \<and> window_Razorpay w \<longrightarrow>
      \<not> isBookingLoading (comp (step (Settle i (Resolved (OrderData r))) w))"
    by (auto simp add: settle_at handleBookingSubmit_ordered_def handleBookingSubmit_loaded_def
          handleBookingSubmit_open_def Let_def)
  have 4: "pending_at w i PendAvailability \<longrightarrow>
      alerts (step (Settle i (Rejected e)) w) = alerts w @ [JStr (str ''Failed to fetch availability.'')]
      \<and> \<not> isCheckingLoading (comp (step (Settle i (Rejected e)) w))
      \<and> \<not> isCheckingLoading (comp (step (Settle i (Resolved (AvailData a))) w))"
    by (auto simp add: settle_at checkRoomAvailability_rejected_def checkRoomAvailability_resolved_def)
  have 5: "pending_at w i PendRequest \<longrightarrow>
      \<not> isRequestLoading (comp (step (Settle i (Rejected e)) w))
      \<and> \<not> isRequestLoading (comp (step (Settle i (Resolved d)) w))"
    by (auto simp add: settle_at handleRequestSubmit_rejected_def handleRequestSubmit_resolved_def)
  have 6: "pending_at w i PendChat \<longrightarrow>
      alerts (step (Settle i (Rejected e)) w) = alerts w
      \<and> console (step (Settle i (Rejected e)) w) = console w @ [e]"
    by (auto simp add: settle_at handleChatSubmit_rejected_def)
  have 7: "pending_at v j PayCreateOrder \<longrightarrow>
      alerts (pstep (PSettle j (Rejected e)) v)
        = alerts v @ [js_or (detail_of e) (JStr (str ''Failed to create order. Check backend logs.''))]
      \<and> (truthy (detail_of e) \<longrightarrow> alerts (pstep (PSettle j (Rejected e)) v) = alerts v @ [detail_of e])
      \<and> \<not> creating (comp (pstep (PSettle j (Rejected e)) v))
      \<and> \<not> creating (comp (pstep (PSettle j (Resolved (OrderData r))) v))"
    by (auto simp add: psettle_at createOrder_rejected_def createOrder_resolved_def js_or_def)
  from 1 2 3 4 5 6 7 show ?thesis by blast
qed


theorem network_error_handling_witness:
  "pending_at (run booking_requested (opened Booking False)) 0 (PendBooking (str ''guest@example.com''))
   \<and> truthy (detail_of server_error)
   \<and> alerts (step (Settle 0 (Rejected server_error)) (run booking_requested (opened Booking False)))
       = [JStr (str ''Invalid signature'')]
   \<and> alerts (step (Settle 0 (Rejected (Error (str ''Network Error'')))) (run booking_requested (opened Booking False)))
       = [JStr (str ''Network Error'')]
   \<and> alerts (step (Settle 0 (Rejected JUndefined)) (run booking_requested (opened Booking False)))
       = [JStr (str ''Booking/payment failed.'')]
   \<and> isBookingLoading (comp (run booking_requested (opened Booking False)))
   \<and> isBookingLoading (comp (step (Settle 0 (Rejected server_error)) (run booking_requested (opened Booking False)))) = False
   \<and> pending_at (run book_and_pay (opened Booking False)) 0
        (PendLoadRazorpay (str ''guest@example.com'') (JStr (str ''abc-123'')) (str ''rzp_test_x'') (order_of example_order))
   \<and> alerts (step (Settle 0 (Rejected JUndefined)) (run book_and_pay (opened Booking False)))
       = [JStr (str ''Failed to load Razorpay'')]
   \<and> isBookingLoading (comp (step (Settle 0 (Resolved (SdkPresent True))) (run book_and_pay (opened Booking False)))) = False
   \<and> pending_at (run order_requested (opened Booking True)) 0
        (PendCreateOrder (str ''guest@example.com'') (JStr (str ''abc-123'')))
   \<and> window_Razorpay (run order_requested (opened Booking True))
   \<and> isBookingLoading (comp (step (Settle 0 (Resolved (OrderData example_order))) (run order_requested (opened Booking True)))) = False
   \<and> pending_at (run check_query (opened Booking False)) 0 PendAvailability
   \<and> alerts (step (Settle 0 (Rejected server_error)) (run check_query (opened Booking False)))
       = [JStr (str ''Failed to fetch availability.'')]
   \<and> isCheckingLoading (comp (step (Settle 0 (Rejected server_error)) (run check_query (opened Booking False)))) = False
   \<and> pending_at (run requesting (opened Request False)) 0 PendRequest
   \<and> isRequestLoading (comp (run requesting (opened Request False)))
   \<and> isRequestLoading (comp (step (Settle 0 (Rejected server_error)) (run requesting (opened Request False)))) = False
   \<and> isRequestLoading (comp (step (Settle 0 (Resolved NoData)) (run requesting (opened Request False)))) = False
   \<and> pending_at (run chatting (opened Faq False)) 0 PendChat
   \<and> alerts (step (Settle 0 (Rejected server_error)) (run chatting (opened Faq False))) = []
   \<and> pending_at (prun page_creating (PaymentPage False)) 0 PayCreateOrder
   \<and> creating (comp (prun page_creating (PaymentPage False)))
   \<and> alerts (pstep (PSettle 0 (Rejected server_error)) (prun page_creating (PaymentPage False)))
       = [JStr (str ''Invalid signature'')]
   \<and> alerts (pstep (PSettle 0 (Rejected (Error (str ''Network Error'')))) (prun page_creating (PaymentPage False)))
       = [JStr (str ''Failed to create order. Check backend logs.'')]
   \<and> creating (comp (pstep (PSettle 0 (Rejected server_error)) (prun page_creating (PaymentPage False)))) = False
   \<and> creating (comp (pstep (PSettle 0 (Resolved (OrderData example_order))) (prun page_creating (PaymentPage False)))) = False"
proof -
  let ?em = "str ''guest@example.com''"
  let ?bid = "JStr (str ''abc-123'')"
  let ?wb = "run booking_requested (opened Booking False)"
  let ?wl = "run book_and_pay (opened Booking False)"
  let ?wo = "run order_requested (opened Booking True)"
  let ?wa = "run check_query (opened Booking False)"
  let ?wr = "run requesting (opened Request False)"
  let ?wc = "run chatting (opened Faq False)"
  let ?v = "prun page_creating (PaymentPage False)"
  have hb: "pending_at ?wb 0 (PendBooking ?em) \<and> alerts ?wb = [] \<and> isBookingLoading (comp ?wb)"
    by (simp add: pending_at_def example_defs chatbot_defs str_def)
  have hl: "pending_at ?wl 0 (PendLoadRazorpay ?em ?bid (str ''rzp_test_x'') (order_of example_order))
            \<and> alerts ?wl = []"
    by (simp add: pending_at_def example_defs chatbot_defs str_def)
  have ho: "pending_at ?wo 0 (PendCreateOrder ?em ?bid) \<and> window_Razorpay ?wo"
    by (simp add: pending_at_def example_defs chatbot_defs str_def)
  have ha: "pending_at ?wa 0 PendAvailability \<and> alerts ?wa = []"
    by (simp add: pending_at_def example_defs chatbot_defs str_def)
  have hr: "pending_at ?wr 0 PendRequest \<and> isRequestLoading (comp ?wr)"
    by (simp add: pending_at_def example_defs chatbot_defs str_def)
  have hc: "pending_at ?wc 0 PendChat \<and> alerts ?wc = []"
    by (simp add: pending_at_def example_defs chatbot_defs trim_def is_js_whitespace_def str_def)
  have hv: "pending_at ?v 0 PayCreateOrder \<and> alerts ?v = [] \<and> creating (comp ?v)"
    by (simp add: pending_at_def example_defs payment_defs trim_def is_js_whitespace_def str_def)
  have d: "truthy (detail_of server_error) \<and> detail_of server_error = JStr (str ''Invalid signature'')"
    by (simp add: server_error_def js_defs)
  have n: "js_or (js_or (detail_of (Error (str ''Network Error''))) (opt_get (Error (str ''Network Error'')) (str ''message'')))
             (JStr (str ''Booking/payment failed.'')) = JStr (str ''Network Error'')
         \<and> js_or (js_or (detail_of JUndefined) (opt_get JUndefined (str ''message'')))
             (JStr (str ''Booking/payment failed.'')) = JStr (str ''Booking/payment failed.'')
         \<and> js_or (detail_of (Error (str ''Network Error''))) (JStr (str ''Failed to create order. Check backend logs.''))
             = JStr (str ''Failed to create order. Check backend logs.'')"
    by (simp add: js_defs)
  note booking = network_error_handling [THEN conjunct1, rule_format]
  note load = network_error_handling [THEN conjunct2, THEN conjunct1, rule_format]
  note ordered = network_error_handling [THEN conjunct2, THEN conjunct2, THEN conjunct1, rule_format]
  note avail = network_error_handling [THEN conjunct2, THEN conjunct2, THEN conjunct2, THEN conjunct1,
      rule_format]
  note request = network_error_handling [THEN conjunct2, THEN conjunct2, THEN conjunct2, THEN conjunct2,
      THEN conjunct1, rule_format]
  note chat = network_error_handling [THEN conjunct2, THEN conjunct2, THEN conjunct2, THEN conjunct2,
      THEN conjunct2, THEN conjunct1, rule_format]
  note page = network_error_handling [THEN conjunct2, THEN conjunct2, THEN conjunct2, THEN conjunct2,
      THEN conjunct2, THEN conjunct2, rule_format]
  have pb: "pending_at ?wb 0 (PendBooking ?em) \<or> pending_at ?wb 0 (PendCreateOrder ?em JNull)"
    using hb by simp
  note t1 = booking [OF pb, of server_error]
  note t2 = booking [OF pb, of "Error (str ''Network Error'')"]
  note t3 = booking [OF pb, of JUndefined]
  note t4 = load [OF hl [THEN conjunct1], of JUndefined True]
  note t5 = ordered [OF ho, of example_order]
  note t6 = avail [OF ha [THEN conjunct1], of server_error]
  note t7 = request [OF hr [THEN conjunct1], of server_error NoData]
  note t8 = chat [OF hc [THEN conjunct1], of server_error]
  note t9 = page [OF hv [THEN conjunct1], of server_error example_order]
  note t10 = page [OF hv [THEN conjunct1], of "Error (str ''Network Error'')"]
  have b: "alerts (step (Settle 0 (Rejected server_error)) ?wb) = [JStr (str ''Invalid signature'')]
         \<and> alerts (step (Settle 0 (Rejected (Error (str ''Network Error'')))) ?wb) = [JStr (str ''Network Error'')]
         \<and> alerts (step (Settle 0 (Rejected JUndefined)) ?wb) = [JStr (str ''Booking/payment failed.'')]
         \<and> isBookingLoading (comp (step (Settle 0 (Rejected server_error)) ?wb)) = False"
    using t1 t2 t3 hb d n by (simp add: js_or_def str_def)
  have l: "alerts (step (Settle 0 (Rejected JUndefined)) ?wl) = [JStr (str ''Failed to load Razorpay'')]
         \<and> isBookingLoading (comp (step (Settle 0 (Resolved (SdkPresent True))) ?wl)) = False"
    using t4 hl by simp
  have o: "isBookingLoading (comp (step (Settle 0 (Resolved (OrderData example_order))) ?wo)) = False"
    using t5 ho by simp
  have a: "alerts (step (Settle 0 (Rejected server_error)) ?wa) = [JStr (str ''Failed to fetch availability.'')]
         \<and> isCheckingLoading (comp (step (Settle 0 (Rejected server_error)) ?wa)) = False"
    using t6 ha by simp
  have r: "isRequestLoading (comp (step (Settle 0 (Rejected server_error)) ?wr)) = False
         \<and> isRequestLoading (comp (step (Settle 0 (Resolved NoData)) ?wr)) = False"
    using t7 hr by simp
  have c: "alerts (step (Settle 0 (Rejected server_error)) ?wc) = []"
    using t8 hc by simp
  have p: "alerts (pstep (PSettle 0 (Rejected server_error)) ?v) = [JStr (str ''Invalid signature'')]
         \<and> alerts (pstep (PSettle 0 (Rejected (Error (str ''Network Error'')))) ?v)
             = [JStr (str ''Failed to create order. Check backend logs.'')]
         \<and> creating (comp (pstep (PSettle 0 (Rejected server_error)) ?v)) = False
         \<and> creating (comp (pstep (PSettle 0 (Resolved (OrderData example_order))) ?v)) = False"
    using t9 t10 hv d n by (simp add: js_or_def str_def)
  from hb hl ho ha hr hc hv d b l o a r c p show ?thesis by (simp add: str_def)
qed

section \<open>Controls while a call is in flight\<close>
















end
